theory Spec2Isabelle
  imports Complex_Main "HOL-Library.AList" "HOL-Library.Monad_Syntax"
begin

section \<open>Data model\<close>

text \<open>
  The bot lives in two TypeScript modules: \<^verbatim>\<open>tools.ts\<close> (class \<^verbatim>\<open>Tools\<close>) and
  \<^verbatim>\<open>index.ts\<close> (the start-up code and the \<^verbatim>\<open>timer.on('tick')\<close> handler).
  Everything the code learns from the chain arrives through awaited calls on
  contract objects. Such a call either resolves to a value or rejects, and it may
  behave differently each time it is made. The model therefore threads an abstract
  world \<open>'w\<close> through every remote call: a call takes the world and returns its
  outcome together with the world after the call.
\<close>

type_synonym address = string

text \<open>A rejected promise or thrown exception; the payload is \<^verbatim>\<open>e.toString()\<close>.\<close>

datatype error = Thrown string

text \<open>\<^verbatim>\<open>ethers.ContractReceipt\<close>, restricted to the two fields the bot reads.\<close>

record receipt =
  transactionHash :: string
  blockNumber :: int

text \<open>A loaded \<^verbatim>\<open>DAO.Bond\<close> contract object, identified by its \<^verbatim>\<open>contract_address\<close>.\<close>

record Bond =
  contract_address :: address

text \<open>The value type of \<^verbatim>\<open>Bonds = Map<string, {name, bond, redeemHelper}>\<close>.\<close>

record elem =
  name :: string
  bond :: Bond
  redeemHelper :: bool

text \<open>
  A JavaScript \<^verbatim>\<open>Map\<close> iterates in insertion order and holds one value per key:
  an association list whose \<^verbatim>\<open>set\<close> is \<^const>\<open>AList.update\<close> and whose
  \<^verbatim>\<open>has\<close>/\<^verbatim>\<open>get\<close> is \<^const>\<open>map_of\<close>.
\<close>

type_synonym Bonds = "(address \<times> elem) list"

text \<open>The object \<^verbatim>\<open>helper.symbol(contract_address)\<close> resolves to.\<close>

record symbols =
  symbol0 :: string
  symbol1 :: string

text \<open>The object \<^verbatim>\<open>bond.terms()\<close> resolves to; \<open>vestingTerm\<close> is a \<^verbatim>\<open>BigNumber\<close>.\<close>

record terms =
  vestingTerm :: int

text \<open>
  The object \<^verbatim>\<open>helper.info(staking, stakedToken, timetracker, myStakingWallet)\<close>
  resolves to, restricted to the \<^verbatim>\<open>BigNumber\<close> fields that \<^verbatim>\<open>getLoopData\<close>
  converts with \<^verbatim>\<open>toNumber()\<close>. (\<open>raw_epochNumber\<close> and \<open>raw_blockNumber\<close> are the
  fields \<^verbatim>\<open>epochNumber\<close> and \<^verbatim>\<open>blockNumber\<close> of the result.)
\<close>

record info_result =
  blockAverage :: int
  epochLength :: int
  epochDistribute :: int
  stakedCirculatingSupply :: int
  raw_epochNumber :: int
  epochEndBlock :: int
  raw_blockNumber :: int
  stakingIndex :: int

text \<open>
  \<^verbatim>\<open>interface StakingInformation\<close>, restricted to its integer fields
  (\<open>info_blockNumber\<close> is the field \<^verbatim>\<open>blockNumber\<close>). The fields \<^verbatim>\<open>rebaseRate\<close>,
  \<^verbatim>\<open>epochsPerDay\<close>, \<^verbatim>\<open>stakedTokenBalance\<close> and \<^verbatim>\<open>index\<close> are doubles that only
  reach the status lines of the log.
\<close>

record StakingInformation =
  epochNumber :: int
  info_blockNumber :: int
  endBlock :: int
  delta :: int

text \<open>
  The remote interface. \<open>Inl\<close> is a rejection. The staking wallet and the contract
  addresses are fixed at start-up and are part of the interface.
  \<^item> \<open>redeemHelper_getBonds n\<close>: \<^verbatim>\<open>redeemHelper.getBonds(maxBonds)\<close>;
  \<^item> \<open>scanner_load_contract a\<close>: \<^verbatim>\<open>scanner.load_contract(DAO.Bond, contract_address, 'IGNORED')\<close>;
  \<^item> \<open>bond_connectWallet a\<close>: \<^verbatim>\<open>bond.connectWallet(wallet)\<close> on the bond at \<open>a\<close>;
  \<^item> \<open>helper_symbol a\<close>: \<^verbatim>\<open>helper.symbol(contract_address)\<close>;
  \<^item> \<open>bond_terms a\<close>: \<^verbatim>\<open>bond.terms()\<close>;
  \<^item> \<open>helper_info\<close>: \<^verbatim>\<open>helper.info(staking, stakedToken, timetracker, myStakingWallet)\<close>;
  \<^item> \<open>bond_pendingPayoutFor a\<close>: \<^verbatim>\<open>bond.pendingPayoutFor(myStakingWallet)\<close>, a \<^verbatim>\<open>BigNumber\<close>;
  \<^item> \<open>wallet_getBalance\<close>: \<^verbatim>\<open>wallet.getBalance()\<close>;
  \<^item> \<open>redeemHelper_redeemAll\<close>:
    \<^verbatim>\<open>(await redeemHelper.execute(redeemHelper.redeemAll(myStakingWallet, true), 2)).receipt\<close>;
  \<^item> \<open>bond_redeem a\<close>: \<^verbatim>\<open>(await bond.execute(bond.redeem(myStakingWallet, true), 2)).receipt\<close>.
\<close>

record 'w remote =
  redeemHelper_getBonds :: "nat \<Rightarrow> 'w \<Rightarrow> (error + address list) \<times> 'w"
  scanner_load_contract :: "address \<Rightarrow> 'w \<Rightarrow> (error + Bond) \<times> 'w"
  bond_connectWallet :: "address \<Rightarrow> 'w \<Rightarrow> (error + unit) \<times> 'w"
  helper_symbol :: "address \<Rightarrow> 'w \<Rightarrow> (error + symbols) \<times> 'w"
  bond_terms :: "address \<Rightarrow> 'w \<Rightarrow> (error + terms) \<times> 'w"
  helper_info :: "'w \<Rightarrow> (error + info_result) \<times> 'w"
  bond_pendingPayoutFor :: "address \<Rightarrow> 'w \<Rightarrow> (error + int) \<times> 'w"
  wallet_getBalance :: "'w \<Rightarrow> (error + int) \<times> 'w"
  redeemHelper_redeemAll :: "'w \<Rightarrow> (error + receipt) \<times> 'w"
  bond_redeem :: "address \<Rightarrow> 'w \<Rightarrow> (error + receipt) \<times> 'w"

text \<open>
  \<^verbatim>\<open>BigNumber.toNumber()\<close> of the ethers library throws when the value does not
  fit the 53 bits of a safe JavaScript integer.
\<close>

definition toNumber :: "int \<Rightarrow> int option" where
  "toNumber n = (if - (2 ^ 53) < n \<and> n < 2 ^ 53 then Some n else None)"

text \<open>What the bot can be seen doing: timer toggles, transactions, and the log lines
  of the redeem step.
  \<^item> \<open>TryingToRedeem\<close>: \<^verbatim>\<open>Logger.warn('Trying to Redeem & Stake all Bonds')\<close>;
  \<^item> \<open>RedeemAllTx\<close>: the bulk call \<^verbatim>\<open>redeemHelper.redeemAll\<close> is issued;
  \<^item> \<open>RedeemTx a\<close>: the individual call \<^verbatim>\<open>bond.redeem\<close> is issued on the bond at \<open>a\<close>;
  \<^item> \<open>RedeemedAndStaked h b\<close>: \<^verbatim>\<open>Logger.info('Redeemed & Staked via %s in block %s', h, b)\<close>;
  \<^item> \<open>ErrorRedeeming e\<close>: \<^verbatim>\<open>Logger.error('Error redeeming & staking bonds: %s', e.toString())\<close>;
  \<^item> \<open>UnhandledRejection e\<close>: the handler's promise rejects.
\<close>

datatype event =
    TimerToggle
  | TryingToRedeem
  | RedeemAllTx
  | RedeemTx address
  | RedeemedAndStaked string int
  | ErrorRedeeming error
  | UnhandledRejection error

text \<open>
  The mutable state of \<^verbatim>\<open>index.ts\<close>: \<^verbatim>\<open>const epochs = new Map<number, number>()\<close>
  and the pause flag of \<^verbatim>\<open>const timer = new Metronome(60 * 1000, true)\<close>.
\<close>

record bot =
  epochs :: "(int \<times> int) list"
  paused :: bool

section \<open>Tools.checkBonds\<close>

text \<open>
  \<^verbatim>\<open>parseFloat(ethers.utils.formatUnits(result, 'gwei'))\<close>: \<^verbatim>\<open>formatUnits\<close> prints the
  integer scaled by \<open>10\<^sup>-\<^sup>9\<close> as an exact decimal, and \<^verbatim>\<open>parseFloat\<close> rounds that
  decimal to the nearest double. The model keeps the exact decimal, which the
  double matches to one part in \<open>2\<^sup>5\<^sup>3\<close>; from \<open>2\<^sup>5\<^sup>3\<close> base units on, two sums
  can give the same double while their decimals differ. Rounding to nearest is
  monotone and maps \<open>0\<close> to \<open>0\<close>, so comparisons of the result with \<open>0\<close> are
  the same on the decimal and on the double. What is stated of the value below
  is a comparison with \<open>0\<close> or a bound that leaves room for the rounding.
\<close>

definition gwei :: "int \<Rightarrow> rat" where
  "gwei n = of_int n / 10 ^ 9"

text \<open>
  The closure \<^verbatim>\<open>attempt\<close> of \<^verbatim>\<open>checkBonds\<close>: query the payout; on any failure
  warn, sleep two seconds and start over. There is no retry cap, so the loop may
  run forever: \<open>None\<close> is that run.
\<close>

partial_function (option) attemptPayout :: "'w remote \<Rightarrow> elem \<Rightarrow> 'w \<Rightarrow> (int \<times> 'w) option" where
  "attemptPayout r el w =
     (case bond_pendingPayoutFor r (contract_address (bond el)) w of
        (Inr payout, w') \<Rightarrow> Some (payout, w')
      | (Inl e, w') \<Rightarrow> attemptPayout r el w')"

declare attemptPayout.simps [code]

text \<open>
  The \<^verbatim>\<open>for (const [, elem] of bonds)\<close> loop with its accumulator \<^verbatim>\<open>result\<close>
  (a \<^verbatim>\<open>BigNumber\<close>, starting at \<open>0\<close>).
\<close>

fun checkBonds_loop :: "'w remote \<Rightarrow> bool \<Rightarrow> Bonds \<Rightarrow> int \<Rightarrow> 'w \<Rightarrow> (int \<times> 'w) option" where
  "checkBonds_loop r ignoreAdditional [] result w = Some (result, w)"
| "checkBonds_loop r ignoreAdditional ((k, el) # bonds) result w =
     (if ignoreAdditional \<and> \<not> redeemHelper el
      then checkBonds_loop r ignoreAdditional bonds result w
      else (case attemptPayout r el w of
              None \<Rightarrow> None
            | Some (payout, w') \<Rightarrow> checkBonds_loop r ignoreAdditional bonds (result + payout) w'))"

definition checkBonds :: "'w remote \<Rightarrow> Bonds \<Rightarrow> bool \<Rightarrow> 'w \<Rightarrow> (rat \<times> 'w) option" where
  "checkBonds r bonds ignoreAdditional w =
     (case checkBonds_loop r ignoreAdditional bonds 0 w of
        None \<Rightarrow> None
      | Some (result, w') \<Rightarrow> Some (gwei result, w'))"

section \<open>Tools.getBonds\<close>

text \<open>Lines 345 to 349 of \<^verbatim>\<open>getBonds\<close>: the tag, the symbol part and the name.\<close>

definition bond_tag :: "int \<Rightarrow> string" where
  "bond_tag vestingTerm_number = (if vestingTerm_number = 345600 then ''(4,4)'' else ''(1,1)'')"

definition bond_symbol :: "symbols \<Rightarrow> string" where
  "bond_symbol s =
     (if length (symbol1 s) \<noteq> 0 then symbol0 s @ ''-'' @ symbol1 s @ '' LP'' else symbol0 s)"

definition bond_name :: "symbols \<Rightarrow> int \<Rightarrow> string" where
  "bond_name s vestingTerm_number = bond_symbol s @ '' '' @ bond_tag vestingTerm_number"

text \<open>
  The closure \<^verbatim>\<open>attempt\<close> of \<^verbatim>\<open>getBonds\<close>: resolve one address into a registry
  entry; on any failure warn, sleep two seconds and start over.
\<close>

partial_function (option) attemptLoad ::
    "'w remote \<Rightarrow> address list \<Rightarrow> address \<Rightarrow> 'w \<Rightarrow> (elem \<times> 'w) option" where
  "attemptLoad r additionalBonds a w =
     (case scanner_load_contract r a w of
        (Inl e, w1) \<Rightarrow> attemptLoad r additionalBonds a w1
      | (Inr b, w1) \<Rightarrow>
     (case bond_connectWallet r (contract_address b) w1 of
        (Inl e, w2) \<Rightarrow> attemptLoad r additionalBonds a w2
      | (Inr u, w2) \<Rightarrow>
     (case helper_symbol r a w2 of
        (Inl e, w3) \<Rightarrow> attemptLoad r additionalBonds a w3
      | (Inr s, w3) \<Rightarrow>
     (case bond_terms r (contract_address b) w3 of
        (Inl e, w4) \<Rightarrow> attemptLoad r additionalBonds a w4
      | (Inr t, w4) \<Rightarrow>
     (case toNumber (vestingTerm t) of
        None \<Rightarrow> attemptLoad r additionalBonds a w4
      | Some n \<Rightarrow>
          Some (\<lparr>name = bond_name s n, bond = b,
                  redeemHelper = (contract_address b \<notin> set additionalBonds)\<rparr>, w4))))))"

declare attemptLoad.simps [code]

text \<open>The loop \<^verbatim>\<open>for (const contract_address of bond_addresses)\<close>.\<close>

fun getBonds_loop ::
    "'w remote \<Rightarrow> address list \<Rightarrow> address list \<Rightarrow> Bonds \<Rightarrow> 'w \<Rightarrow> (Bonds \<times> 'w) option" where
  "getBonds_loop r additionalBonds [] result w = Some (result, w)"
| "getBonds_loop r additionalBonds (a # bond_addresses) result w =
     (case attemptLoad r additionalBonds a w of
        None \<Rightarrow> None
      | Some (el, w') \<Rightarrow>
          getBonds_loop r additionalBonds bond_addresses (AList.update a el result) w')"

text \<open>
  \<^verbatim>\<open>redeemHelper.getBonds(maxBonds)\<close> is awaited outside any \<^verbatim>\<open>try\<close>: its rejection
  is the rejection of \<^verbatim>\<open>getBonds\<close>.
\<close>

definition getBonds ::
    "'w remote \<Rightarrow> nat \<Rightarrow> address list \<Rightarrow> 'w \<Rightarrow> ((error + Bonds) \<times> 'w) option" where
  "getBonds r maxBonds additionalBonds w =
     (case redeemHelper_getBonds r maxBonds w of
        (Inl e, w1) \<Rightarrow> Some (Inl e, w1)
      | (Inr bond_addresses, w1) \<Rightarrow>
          (case getBonds_loop r additionalBonds (bond_addresses @ additionalBonds) [] w1 of
             None \<Rightarrow> None
           | Some (result, w2) \<Rightarrow> Some (Inr result, w2)))"

section \<open>Tools.getLoopData\<close>

text \<open>
  The body of the \<^verbatim>\<open>try\<close> after \<^verbatim>\<open>helper.info\<close> has resolved. Every \<^verbatim>\<open>toNumber()\<close>
  may throw, in the order of the source; the divisions are on doubles and do not throw.
\<close>

definition loopData :: "info_result \<Rightarrow> StakingInformation option" where
  "loopData result =
     do {
       _ \<leftarrow> toNumber (blockAverage result);
       _ \<leftarrow> toNumber (epochLength result);
       _ \<leftarrow> toNumber (epochDistribute result);
       _ \<leftarrow> toNumber (stakedCirculatingSupply result);
       epochNumber \<leftarrow> toNumber (raw_epochNumber result);
       endBlock \<leftarrow> toNumber (epochEndBlock result);
       blockNumber \<leftarrow> toNumber (raw_blockNumber result);
       _ \<leftarrow> toNumber (stakingIndex result);
       Some \<lparr>epochNumber = epochNumber, info_blockNumber = blockNumber,
              endBlock = endBlock, delta = endBlock - blockNumber\<rparr>
     }"

text \<open>The closure \<^verbatim>\<open>attempt\<close> of \<^verbatim>\<open>getLoopData\<close>, retried without a cap.\<close>

partial_function (option) getLoopData :: "'w remote \<Rightarrow> 'w \<Rightarrow> (StakingInformation \<times> 'w) option" where
  "getLoopData r w =
     (case helper_info r w of
        (Inl e, w') \<Rightarrow> getLoopData r w'
      | (Inr result, w') \<Rightarrow>
          (case loopData result of
             None \<Rightarrow> getLoopData r w'
           | Some i \<Rightarrow> Some (i, w')))"

declare getLoopData.simps [code]

section \<open>Tools.redeemBonds\<close>

text \<open>The closure \<^verbatim>\<open>getBond\<close>.\<close>

definition getBond :: "Bonds \<Rightarrow> address \<Rightarrow> Bond option" where
  "getBond bonds contract = (case map_of bonds contract of None \<Rightarrow> None | Some data \<Rightarrow> Some (bond data))"

text \<open>
  The loop \<^verbatim>\<open>for (const bond_contract of additionalBonds)\<close>. Nothing in it is
  wrapped in a \<^verbatim>\<open>try\<close>: a rejection of the payout query or of the redeem call
  leaves \<^verbatim>\<open>redeemBonds\<close> at once, and the array \<^verbatim>\<open>receipts\<close> is lost with it.
\<close>

fun redeemAdditional ::
    "'w remote \<Rightarrow> Bonds \<Rightarrow> address list \<Rightarrow> event list \<Rightarrow> receipt list \<Rightarrow> 'w
       \<Rightarrow> event list \<times> (error + receipt list) \<times> 'w" where
  "redeemAdditional r bonds [] evs receipts w = (evs, Inr receipts, w)"
| "redeemAdditional r bonds (bond_contract # rest) evs receipts w =
     (case getBond bonds bond_contract of
        None \<Rightarrow> redeemAdditional r bonds rest evs receipts w
      | Some b \<Rightarrow>
          (case bond_pendingPayoutFor r (contract_address b) w of
             (Inl e, w1) \<Rightarrow> (evs, Inl e, w1)
           | (Inr payout, w1) \<Rightarrow>
               if payout > 0
               then (case bond_redeem r (contract_address b) w1 of
                       (Inl e, w2) \<Rightarrow> (evs @ [RedeemTx (contract_address b)], Inl e, w2)
                     | (Inr receipt, w2) \<Rightarrow>
                         redeemAdditional r bonds rest
                           (evs @ [RedeemTx (contract_address b)]) (receipts @ [receipt]) w2)
               else redeemAdditional r bonds rest evs receipts w1))"

definition redeemBonds ::
    "'w remote \<Rightarrow> Bonds \<Rightarrow> address list \<Rightarrow> 'w
       \<Rightarrow> (event list \<times> (error + receipt list) \<times> 'w) option" where
  "redeemBonds r bonds additionalBonds w =
     (case checkBonds r bonds True w of
        None \<Rightarrow> None
      | Some (pending, w1) \<Rightarrow>
          if pending > 0
          then (case redeemHelper_redeemAll r w1 of
                  (Inl e, w2) \<Rightarrow> Some ([RedeemAllTx], Inl e, w2)
                | (Inr receipt, w2) \<Rightarrow>
                    Some (redeemAdditional r bonds additionalBonds [RedeemAllTx] [receipt] w2))
          else Some (redeemAdditional r bonds additionalBonds [] [] w1))"

section \<open>The tick handler\<close>

text \<open>\<^verbatim>\<open>timer.toggle()\<close>.\<close>

definition toggle :: "bot \<Rightarrow> bot" where
  "toggle st = st\<lparr>paused := \<not> paused st\<rparr>"

text \<open>The state before the first tick: an empty map and a running timer.\<close>

definition initial :: bot where
  "initial = \<lparr>epochs = [], paused = False\<rparr>"

text \<open>
  \<^verbatim>\<open>Tools.secondsToHuman\<close> is \<^verbatim>\<open>new Date(seconds * 1000).toISOString().substr(11, 8)\<close>.
  A \<^verbatim>\<open>Date\<close> more than \<open>8.64 \<cdot> 10\<^sup>1\<^sup>5\<close> milliseconds away from the epoch is
  invalid, and \<^verbatim>\<open>toISOString\<close> throws a \<^verbatim>\<open>RangeError\<close> on it. The text is only
  logged; the model keeps whether there is one.
\<close>

definition secondsToHuman :: "int \<Rightarrow> unit option" where
  "secondsToHuman seconds = (if \<bar>seconds * 1000\<bar> \<le> 8640000000000000 then Some () else None)"

text \<open>
  Lines 159 to 204 of the handler: the loop data, the payout of all bonds
  (\<^verbatim>\<open>Tools.checkBonds(bonds, myStakingWallet)\<close>, with \<^verbatim>\<open>ignoreAdditional\<close> at its default
  \<^verbatim>\<open>false\<close>) and the status lines. Two status lines can end the handler before
  the trigger test, since neither is inside a \<^verbatim>\<open>try\<close>: the one that formats
  \<^verbatim>\<open>info.delta\<close> with \<^verbatim>\<open>Tools.secondsToHuman\<close> and the one that awaits
  \<^verbatim>\<open>wallet.getBalance()\<close>. The rates are doubles computed by \<^verbatim>\<open>Tools.compoundRate\<close>
  for the log only.
\<close>

definition evaluating ::
    "'w remote \<Rightarrow> Bonds \<Rightarrow> 'w \<Rightarrow> ((error + StakingInformation \<times> rat) \<times> 'w) option" where
  "evaluating r bonds w =
     (case getLoopData r w of
        None \<Rightarrow> None
      | Some (info, w1) \<Rightarrow>
          (case checkBonds r bonds False w1 of
             None \<Rightarrow> None
           | Some (bondPayout, w2) \<Rightarrow>
               (case secondsToHuman (delta info) of
                  None \<Rightarrow> Some (Inl (Thrown ''RangeError: Invalid time value''), w2)
                | Some text \<Rightarrow>
                    (case wallet_getBalance r w2 of
                       (Inl e, w3) \<Rightarrow> Some (Inl e, w3)
                     | (Inr balance, w3) \<Rightarrow> Some (Inr (info, bondPayout), w3)))))"

text \<open>The loop \<^verbatim>\<open>for (const receipt of receipts)\<close> with its \<^verbatim>\<open>epochs.set\<close>.\<close>

fun record_receipts :: "int \<Rightarrow> receipt list \<Rightarrow> (int \<times> int) list \<Rightarrow> (int \<times> int) list" where
  "record_receipts e [] m = m"
| "record_receipts e (receipt # receipts) m =
     record_receipts e receipts (AList.update e (blockNumber receipt) m)"

text \<open>
  Lines 208 to 224, the body of the \<^verbatim>\<open>if\<close>: toggle, warn, redeem inside
  \<^verbatim>\<open>try\<close>/\<^verbatim>\<open>catch\<close>, toggle. \<open>ADDITIONAL_BONDS\<close> is the constant of that name in
  \<^verbatim>\<open>index.ts\<close> (the empty array as shipped).
\<close>

definition redeem_and_stake ::
    "'w remote \<Rightarrow> address list \<Rightarrow> Bonds \<Rightarrow> StakingInformation \<Rightarrow> bot \<Rightarrow> 'w
       \<Rightarrow> (event list \<times> bot \<times> 'w) option" where
  "redeem_and_stake r ADDITIONAL_BONDS bonds info st w =
     (case redeemBonds r bonds ADDITIONAL_BONDS w of
        None \<Rightarrow> None
      | Some (evs, Inl e, w') \<Rightarrow>
          Some ([TimerToggle, TryingToRedeem] @ evs @ [ErrorRedeeming e, TimerToggle],
                toggle (toggle st), w')
      | Some (evs, Inr receipts, w') \<Rightarrow>
          Some ([TimerToggle, TryingToRedeem] @ evs
                  @ map (\<lambda>receipt. RedeemedAndStaked (transactionHash receipt) (blockNumber receipt))
                      receipts
                  @ [TimerToggle],
                toggle ((toggle st)\<lparr>epochs :=
                  record_receipts (epochNumber info) receipts (epochs (toggle st))\<rparr>), w'))"

text \<open>The handler of \<^verbatim>\<open>timer.on('tick', ...)\<close>.\<close>

definition tick ::
    "'w remote \<Rightarrow> address list \<Rightarrow> Bonds \<Rightarrow> bot \<Rightarrow> 'w \<Rightarrow> (event list \<times> bot \<times> 'w) option" where
  "tick r ADDITIONAL_BONDS bonds st w =
     (case evaluating r bonds w of
        None \<Rightarrow> None
      | Some (Inl e, w1) \<Rightarrow> Some ([UnhandledRejection e], st, w1)
      | Some (Inr (info, bondPayout), w1) \<Rightarrow>
          if delta info \<le> 5 * 60 \<and> map_of (epochs st) (epochNumber info) = None \<and> bondPayout > 0
          then redeem_and_stake r ADDITIONAL_BONDS bonds info st w1
          else Some ([], st, w1))"

section \<open>The handler of the older \<^verbatim>\<open>index.ts\<close>\<close>

text \<open>
  The file \<^verbatim>\<open>src/index.ts\<close> holds an older handler. It reads the chain through the
  staking contract, the staked token and the block-time tracker instead of
  \<^verbatim>\<open>Tools.getLoopData\<close>, none of these reads is retried, and it redeems through the
  helper alone. \<open>epoch_length\<close> is the field \<^verbatim>\<open>_length\<close> and \<open>epoch_endBlock\<close> the
  field \<^verbatim>\<open>endBlock\<close> of the object \<^verbatim>\<open>staking.epoch()\<close> resolves to.
\<close>

record epoch =
  distribute :: int
  epoch_length :: int
  number :: int
  epoch_endBlock :: int

text \<open>
  \<^item> \<open>provider_getBlockNumber\<close>: \<^verbatim>\<open>staking.contract.provider.getBlockNumber()\<close>;
  \<^item> \<open>staking_epoch\<close>: \<^verbatim>\<open>staking.epoch()\<close>;
  \<^item> \<open>stakedToken_circulatingSupply\<close>: \<^verbatim>\<open>stakedToken.circulatingSupply()\<close>;
  \<^item> \<open>timetracker_average\<close>: \<^verbatim>\<open>timetracker.average()\<close>, a double used for the rates only;
  \<^item> \<open>redeemHelper_redeemAll_tx\<close>: \<^verbatim>\<open>redeemHelper.redeemAll(myStakingWallet, true)\<close>,
    resolving to a transaction, of which the model keeps the hash;
  \<^item> \<open>tx_wait h\<close>: \<^verbatim>\<open>tx.wait(2)\<close>.
\<close>

record 'w staking_remote =
  provider_getBlockNumber :: "'w \<Rightarrow> (error + int) \<times> 'w"
  staking_epoch :: "'w \<Rightarrow> (error + epoch) \<times> 'w"
  stakedToken_circulatingSupply :: "'w \<Rightarrow> (error + int) \<times> 'w"
  timetracker_average :: "'w \<Rightarrow> (error + unit) \<times> 'w"
  redeemHelper_redeemAll_tx :: "'w \<Rightarrow> (error + string) \<times> 'w"
  tx_wait :: "string \<Rightarrow> 'w \<Rightarrow> (error + receipt) \<times> 'w"

text \<open>An awaited call outside any \<^verbatim>\<open>try\<close>: its rejection is the handler's.\<close>

definition await ::
    "('w \<Rightarrow> (error + 'a) \<times> 'w) \<Rightarrow> ('a \<Rightarrow> 'w \<Rightarrow> ((error + 'b) \<times> 'w) option)
       \<Rightarrow> 'w \<Rightarrow> ((error + 'b) \<times> 'w) option" where
  "await call rest w = (case call w of (Inl e, w') \<Rightarrow> Some (Inl e, w') | (Inr v, w') \<Rightarrow> rest v w')"

text \<open>A \<^verbatim>\<open>toNumber()\<close> outside any \<^verbatim>\<open>try\<close>.\<close>

definition converted ::
    "int \<Rightarrow> (int \<Rightarrow> 'w \<Rightarrow> ((error + 'b) \<times> 'w) option) \<Rightarrow> 'w \<Rightarrow> ((error + 'b) \<times> 'w) option" where
  "converted n rest w =
     (case toNumber n of None \<Rightarrow> Some (Inl (Thrown ''overflow''), w) | Some v \<Rightarrow> rest v w)"

text \<open>
  Modelled from the spec: the revision of \<^verbatim>\<open>Tools.checkBonds\<close> that the older handler
  calls is not among the sources. The handler treats its result as a
  \<^verbatim>\<open>BigNumber\<close> (\<^verbatim>\<open>bondPayout.gt(BigNumber.from(0))\<close>), and the specification has the
  aggregator sum the claimable value over all registered positions, retrying each
  query until it answers: the accumulator of the present \<^verbatim>\<open>checkBonds\<close>, unscaled.
\<close>

definition checkBonds_BigNumber :: "'w remote \<Rightarrow> Bonds \<Rightarrow> 'w \<Rightarrow> (int \<times> 'w) option" where
  "checkBonds_BigNumber r bonds w = checkBonds_loop r False bonds 0 w"

text \<open>Lines 171 to 221 of the older handler.\<close>

definition legacy_evaluating ::
    "'w remote \<Rightarrow> 'w staking_remote \<Rightarrow> Bonds \<Rightarrow> 'w \<Rightarrow> ((error + int \<times> int \<times> int) \<times> 'w) option" where
  "legacy_evaluating r s bonds =
     await (provider_getBlockNumber s) (\<lambda>blockNumber.
     await (staking_epoch s) (\<lambda>epoch.
     await (stakedToken_circulatingSupply s) (\<lambda>supply.
     converted supply (\<lambda>circulatingSupply.
     converted (distribute epoch) (\<lambda>stakingReward.
     converted (epoch_length epoch) (\<lambda>epochLength.
     await (timetracker_average s) (\<lambda>bps.
     converted (number epoch) (\<lambda>epochNumber.
     converted (epoch_endBlock epoch) (\<lambda>endBlock w.
       (case checkBonds_BigNumber r bonds w of
          None \<Rightarrow> None
        | Some (bondPayout, w1) \<Rightarrow>
            (case secondsToHuman (endBlock - blockNumber) of
               None \<Rightarrow> Some (Inl (Thrown ''RangeError: Invalid time value''), w1)
             | Some text \<Rightarrow>
                 await (wallet_getBalance r)
                   (\<lambda>balance w2. Some (Inr (epochNumber, endBlock - blockNumber, bondPayout), w2))
                   w1)))))))))))"

text \<open>
  Lines 225 to 241 of the older handler: \<^verbatim>\<open>try { ... } catch {} finally { timer.toggle() }\<close>.
\<close>

definition legacy_redeem_and_stake ::
    "'w staking_remote \<Rightarrow> int \<Rightarrow> bot \<Rightarrow> 'w \<Rightarrow> event list \<times> bot \<times> 'w" where
  "legacy_redeem_and_stake s epoch_number st w =
     (case redeemHelper_redeemAll_tx s w of
        (Inl e, w1) \<Rightarrow> ([TimerToggle, TryingToRedeem, RedeemAllTx, TimerToggle], toggle (toggle st), w1)
      | (Inr hash, w1) \<Rightarrow>
          (case tx_wait s hash w1 of
             (Inl e, w2) \<Rightarrow>
               ([TimerToggle, TryingToRedeem, RedeemAllTx, TimerToggle], toggle (toggle st), w2)
           | (Inr receipt, w2) \<Rightarrow>
               ([TimerToggle, TryingToRedeem, RedeemAllTx,
                 RedeemedAndStaked (transactionHash receipt) (blockNumber receipt), TimerToggle],
                toggle ((toggle st)\<lparr>epochs :=
                  AList.update epoch_number (blockNumber receipt) (epochs (toggle st))\<rparr>), w2)))"

definition legacy_tick ::
    "'w remote \<Rightarrow> 'w staking_remote \<Rightarrow> Bonds \<Rightarrow> bot \<Rightarrow> 'w \<Rightarrow> (event list \<times> bot \<times> 'w) option" where
  "legacy_tick r s bonds st w =
     (case legacy_evaluating r s bonds w of
        None \<Rightarrow> None
      | Some (Inl e, w1) \<Rightarrow> Some ([UnhandledRejection e], st, w1)
      | Some (Inr (epoch_number, blocks_left, bondPayout), w1) \<Rightarrow>
          if blocks_left \<le> 5 * 60 \<and> map_of (epochs st) epoch_number = None \<and> bondPayout > 0
          then Some (legacy_redeem_and_stake s epoch_number st w1)
          else Some ([], st, w1))"

section \<open>Overlapping handler runs\<close>

text \<open>
  The handler is an \<^verbatim>\<open>async\<close> function and the \<^verbatim>\<open>Metronome\<close> does not wait for it:
  the timer is paused only inside the \<^verbatim>\<open>if\<close> of line 207, and the retries of
  \<^verbatim>\<open>getLoopData\<close> and \<^verbatim>\<open>checkBonds\<close> have no cap, so a run can still be awaiting its
  queries when the next tick starts another one. Between two \<^verbatim>\<open>await\<close>s a run is
  not interrupted. A run touches the map \<^verbatim>\<open>epochs\<close> and the timer in two such
  stretches only:

  \<^item> from the moment \<^verbatim>\<open>wallet.getBalance()\<close> resolves (line 185) to the first
    \<^verbatim>\<open>await\<close> inside \<^verbatim>\<open>Tools.redeemBonds\<close>: the rest of the status lines, the test of
    line 207, \<^verbatim>\<open>timer.toggle()\<close> and the warning;
  \<^item> from the moment \<^verbatim>\<open>Tools.redeemBonds\<close> settles to the end of the handler: the
    loop over the receipts with its \<^verbatim>\<open>epochs.set\<close>, or the \<^verbatim>\<open>catch\<close>, and
    \<^verbatim>\<open>timer.toggle()\<close>.

  A run in flight is \<open>Started w\<close> while it awaits its queries, \<open>w\<close> being the
  chain as this run meets it, and \<open>Redeeming i w\<close> once it has passed the test
  with loop data \<open>i\<close> and awaits the redeem. \<open>Finished\<close> is a run that is over.
\<close>

datatype ('i, 'w) handler =
    Started 'w
  | Redeeming 'i 'w
  | Finished

text \<open>The bot with its runs in flight, in the order in which they started.\<close>

record ('i, 'w) config =
  state :: bot
  pool :: "('i, 'w) handler list"

text \<open>
  What can happen next: the timer fires and a run starts (\<open>Fire\<close>), run \<open>i\<close>
  reaches the test of line 207 (\<open>Reach\<close>), or the redeem of run \<open>i\<close> settles
  (\<open>Settle\<close>).
\<close>

datatype 'w action =
    Fire 'w
  | Reach nat
  | Settle nat

text \<open>
  One such stretch of the handler of \<^verbatim>\<open>part_000\<close>, on the map and the timer as
  they are at that moment. \<open>None\<close> is an action that cannot happen: there is no
  such run, the run is not at that point, or its queries never return. A run may
  start at any moment, whether the timer is paused or not: the model has every run of
  the bot and more. The transactions of a redeem are listed when it settles.
\<close>

fun act ::
    "'w remote \<Rightarrow> address list \<Rightarrow> Bonds \<Rightarrow> 'w action \<Rightarrow> (StakingInformation, 'w) config
       \<Rightarrow> (event list \<times> (StakingInformation, 'w) config) option" where
  "act r ADDITIONAL_BONDS bonds (Fire w) c = Some ([], c\<lparr>pool := pool c @ [Started w]\<rparr>)"
| "act r ADDITIONAL_BONDS bonds (Reach i) c =
     (if i < length (pool c)
      then (case pool c ! i of
              Started w \<Rightarrow>
                (case evaluating r bonds w of
                   None \<Rightarrow> None
                 | Some (Inl e, w1) \<Rightarrow>
                     Some ([UnhandledRejection e], c\<lparr>pool := (pool c)[i := Finished]\<rparr>)
                 | Some (Inr (info, bondPayout), w1) \<Rightarrow>
                     if delta info \<le> 5 * 60 \<and> map_of (epochs (state c)) (epochNumber info) = None
                        \<and> bondPayout > 0
                     then Some ([TimerToggle, TryingToRedeem],
                                \<lparr>state = toggle (state c),
                                 pool = (pool c)[i := Redeeming info w1]\<rparr>)
                     else Some ([], c\<lparr>pool := (pool c)[i := Finished]\<rparr>))
            | Redeeming info w1 \<Rightarrow> None
            | Finished \<Rightarrow> None)
      else None)"
| "act r ADDITIONAL_BONDS bonds (Settle i) c =
     (if i < length (pool c)
      then (case pool c ! i of
              Started w \<Rightarrow> None
            | Redeeming info w1 \<Rightarrow>
                (case redeemBonds r bonds ADDITIONAL_BONDS w1 of
                   None \<Rightarrow> None
                 | Some (evs, Inl e, w2) \<Rightarrow>
                     Some (evs @ [ErrorRedeeming e, TimerToggle],
                           \<lparr>state = toggle (state c), pool = (pool c)[i := Finished]\<rparr>)
                 | Some (evs, Inr receipts, w2) \<Rightarrow>
                     Some (evs
                             @ map (\<lambda>receipt.
                                 RedeemedAndStaked (transactionHash receipt) (blockNumber receipt))
                                 receipts
                             @ [TimerToggle],
                           \<lparr>state = toggle ((state c)\<lparr>epochs :=
                              record_receipts (epochNumber info) receipts (epochs (state c))\<rparr>),
                            pool = (pool c)[i := Finished]\<rparr>))
            | Finished \<Rightarrow> None)
      else None)"

text \<open>
  The same for the older handler, whose two stretches are cut at the same places:
  the test of line 224 follows the \<^verbatim>\<open>await wallet.getBalance()\<close> of line 207, and
  \<^verbatim>\<open>epochs.set\<close> follows the \<^verbatim>\<open>await tx.wait(2)\<close>. A run past the test keeps its epoch
  number.
\<close>

fun legacy_act ::
    "'w remote \<Rightarrow> 'w staking_remote \<Rightarrow> Bonds \<Rightarrow> 'w action \<Rightarrow> (int, 'w) config
       \<Rightarrow> (event list \<times> (int, 'w) config) option" where
  "legacy_act r s bonds (Fire w) c = Some ([], c\<lparr>pool := pool c @ [Started w]\<rparr>)"
| "legacy_act r s bonds (Reach i) c =
     (if i < length (pool c)
      then (case pool c ! i of
              Started w \<Rightarrow>
                (case legacy_evaluating r s bonds w of
                   None \<Rightarrow> None
                 | Some (Inl e, w1) \<Rightarrow>
                     Some ([UnhandledRejection e], c\<lparr>pool := (pool c)[i := Finished]\<rparr>)
                 | Some (Inr (epoch_number, blocks_left, bondPayout), w1) \<Rightarrow>
                     if blocks_left \<le> 5 * 60 \<and> map_of (epochs (state c)) epoch_number = None
                        \<and> bondPayout > 0
                     then Some ([TimerToggle, TryingToRedeem],
                                \<lparr>state = toggle (state c),
                                 pool = (pool c)[i := Redeeming epoch_number w1]\<rparr>)
                     else Some ([], c\<lparr>pool := (pool c)[i := Finished]\<rparr>))
            | Redeeming epoch_number w1 \<Rightarrow> None
            | Finished \<Rightarrow> None)
      else None)"
| "legacy_act r s bonds (Settle i) c =
     (if i < length (pool c)
      then (case pool c ! i of
              Started w \<Rightarrow> None
            | Redeeming epoch_number w1 \<Rightarrow>
                (case redeemHelper_redeemAll_tx s w1 of
                   (Inl e, w2) \<Rightarrow>
                     Some ([RedeemAllTx, TimerToggle],
                           \<lparr>state = toggle (state c), pool = (pool c)[i := Finished]\<rparr>)
                 | (Inr hash, w2) \<Rightarrow>
                     (case tx_wait s hash w2 of
                        (Inl e, w3) \<Rightarrow>
                          Some ([RedeemAllTx, TimerToggle],
                                \<lparr>state = toggle (state c), pool = (pool c)[i := Finished]\<rparr>)
                      | (Inr receipt, w3) \<Rightarrow>
                          Some ([RedeemAllTx,
                                 RedeemedAndStaked (transactionHash receipt) (blockNumber receipt),
                                 TimerToggle],
                                \<lparr>state = toggle ((state c)\<lparr>epochs :=
                                   AList.update epoch_number (blockNumber receipt)
                                     (epochs (state c))\<rparr>),
                                 pool = (pool c)[i := Finished]\<rparr>)))
            | Finished \<Rightarrow> None)
      else None)"

text \<open>
  A schedule is a list of actions, carried out from left to right; the log is
  the concatenation of what each one logs.
\<close>

fun schedule ::
    "('a \<Rightarrow> 'c \<Rightarrow> (event list \<times> 'c) option) \<Rightarrow> 'a list \<Rightarrow> 'c \<Rightarrow> (event list \<times> 'c) option" where
  "schedule step [] c = Some ([], c)"
| "schedule step (a # as) c =
     (case step a c of
        None \<Rightarrow> None
      | Some (evs, c') \<Rightarrow>
          (case schedule step as c' of
             None \<Rightarrow> None
           | Some (evs', c'') \<Rightarrow> Some (evs @ evs', c'')))"

definition interleaved ::
    "'w remote \<Rightarrow> address list \<Rightarrow> Bonds \<Rightarrow> 'w action list \<Rightarrow> (StakingInformation, 'w) config
       \<Rightarrow> (event list \<times> (StakingInformation, 'w) config) option" where
  "interleaved r ADDITIONAL_BONDS bonds = schedule (act r ADDITIONAL_BONDS bonds)"

definition legacy_interleaved ::
    "'w remote \<Rightarrow> 'w staking_remote \<Rightarrow> Bonds \<Rightarrow> 'w action list \<Rightarrow> (int, 'w) config
       \<Rightarrow> (event list \<times> (int, 'w) config) option" where
  "legacy_interleaved r s bonds = schedule (legacy_act r s bonds)"

text \<open>
  The bot before the first tick. The reachable configurations are those a
  schedule leads to from here.
\<close>

definition start :: "('i, 'w) config" where
  "start = \<lparr>state = initial, pool = []\<rparr>"

section \<open>Specification-level notions\<close>

text \<open>
  The positions \<^verbatim>\<open>checkBonds\<close> looks at: all of them, or only those redeemed through
  the helper when \<^verbatim>\<open>ignoreAdditional\<close> is set.
\<close>

definition eligible :: "bool \<Rightarrow> Bonds \<Rightarrow> elem list" where
  "eligible ignoreAdditional bonds =
     map snd (filter (\<lambda>(k, el). \<not> (ignoreAdditional \<and> \<not> redeemHelper el)) bonds)"

text \<open>
  The pending values of a list of positions, as the chain reports them when the
  positions are asked one after the other, each one until it answers.
\<close>

fun pendingValues :: "'w remote \<Rightarrow> elem list \<Rightarrow> 'w \<Rightarrow> (int list \<times> 'w) option" where
  "pendingValues r [] w = Some ([], w)"
| "pendingValues r (el # els) w =
     (case attemptPayout r el w of
        None \<Rightarrow> None
      | Some (p, w1) \<Rightarrow>
          (case pendingValues r els w1 of
             None \<Rightarrow> None
           | Some (ps, w') \<Rightarrow> Some (p # ps, w')))"

text \<open>
  Handler runs that do not overlap: \<open>ticks r A bonds st ws\<close> is the state after
  one run for each element of \<open>ws\<close>, the state the chain is in when that run
  starts, each run going to its end before the next one starts. These are the
  schedules of \<open>interleaved\<close> in which every \<open>Fire\<close> is followed at once by the
  \<open>Reach\<close> and the \<open>Settle\<close> of the same run.
\<close>

fun ticks :: "'w remote \<Rightarrow> address list \<Rightarrow> Bonds \<Rightarrow> bot \<Rightarrow> 'w list \<Rightarrow> bot option" where
  "ticks r ADDITIONAL_BONDS bonds st [] = Some st"
| "ticks r ADDITIONAL_BONDS bonds st (w # ws) =
     (case tick r ADDITIONAL_BONDS bonds st w of
        None \<Rightarrow> None
      | Some (evs, st', w') \<Rightarrow> ticks r ADDITIONAL_BONDS bonds st' ws)"

text \<open>The trigger condition of the design: window, idempotency guard, pending value.\<close>

definition trigger_condition :: "bot \<Rightarrow> StakingInformation \<Rightarrow> rat \<Rightarrow> bool" where
  "trigger_condition st info pendingValue \<longleftrightarrow>
     delta info \<le> 300 \<and> map_of (epochs st) (epochNumber info) = None \<and> pendingValue > 0"

section \<open>A scripted chain\<close>

text \<open>
  A concrete remote for running the model: the world is the list of replies still
  to come, and every call consumes the next one. A call resolves when the reply
  is of the kind it asks for and rejects otherwise. Once the script is over every
  call rejects.
\<close>

datatype reply =
    Rejects
  | Addresses "address list"
  | Loaded address
  | Connected
  | Symbols string string
  | Terms int
  | Info int int int
  | Payout int
  | Balance int
  | Receipt string int
  | Block int
  | Epoch int int int int
  | Supply int
  | Average
  | Sent string

definition next_reply :: "(reply \<Rightarrow> 'a option) \<Rightarrow> reply list \<Rightarrow> (error + 'a) \<times> reply list" where
  "next_reply pick w =
     (case w of
        [] \<Rightarrow> (Inl (Thrown ''silence''), [])
      | x # xs \<Rightarrow>
          (case pick x of
             None \<Rightarrow> (Inl (Thrown ''rejected''), xs)
           | Some v \<Rightarrow> (Inr v, xs)))"

text \<open>\<open>Info e b n\<close> is epoch number \<open>e\<close>, ending at block \<open>b\<close>, seen at block \<open>n\<close>.\<close>

definition replay :: "reply list remote" where
  "replay =
     \<lparr>redeemHelper_getBonds =
        (\<lambda>n. next_reply (\<lambda>x. case x of Addresses as \<Rightarrow> Some (take n as) | _ \<Rightarrow> None)),
      scanner_load_contract =
        (\<lambda>a. next_reply (\<lambda>x. case x of Loaded b \<Rightarrow> Some \<lparr>contract_address = b\<rparr> | _ \<Rightarrow> None)),
      bond_connectWallet =
        (\<lambda>a. next_reply (\<lambda>x. case x of Connected \<Rightarrow> Some () | _ \<Rightarrow> None)),
      helper_symbol =
        (\<lambda>a. next_reply
           (\<lambda>x. case x of Symbols s0 s1 \<Rightarrow> Some \<lparr>symbol0 = s0, symbol1 = s1\<rparr> | _ \<Rightarrow> None)),
      bond_terms =
        (\<lambda>a. next_reply (\<lambda>x. case x of Terms t \<Rightarrow> Some \<lparr>vestingTerm = t\<rparr> | _ \<Rightarrow> None)),
      helper_info =
        next_reply
          (\<lambda>x. case x of
                 Info e b n \<Rightarrow>
                   Some \<lparr>blockAverage = 1, epochLength = 200, epochDistribute = 500,
                          stakedCirculatingSupply = 1000000, raw_epochNumber = e,
                          epochEndBlock = b, raw_blockNumber = n, stakingIndex = 1\<rparr>
               | _ \<Rightarrow> None),
      bond_pendingPayoutFor =
        (\<lambda>a. next_reply (\<lambda>x. case x of Payout p \<Rightarrow> Some p | _ \<Rightarrow> None)),
      wallet_getBalance = next_reply (\<lambda>x. case x of Balance b \<Rightarrow> Some b | _ \<Rightarrow> None),
      redeemHelper_redeemAll =
        next_reply
          (\<lambda>x. case x of
                 Receipt h b \<Rightarrow> Some \<lparr>transactionHash = h, blockNumber = b\<rparr>
               | _ \<Rightarrow> None),
      bond_redeem =
        (\<lambda>a. next_reply
           (\<lambda>x. case x of
                  Receipt h b \<Rightarrow> Some \<lparr>transactionHash = h, blockNumber = b\<rparr>
                | _ \<Rightarrow> None))\<rparr>"

text \<open>
  The calls of the older handler. \<open>Epoch d l n b\<close> is an epoch distributing \<open>d\<close>
  over \<open>l\<close> blocks, with number \<open>n\<close>, ending at block \<open>b\<close>.
\<close>

definition replay_staking :: "reply list staking_remote" where
  "replay_staking =
     \<lparr>provider_getBlockNumber = next_reply (\<lambda>x. case x of Block n \<Rightarrow> Some n | _ \<Rightarrow> None),
      staking_epoch =
        next_reply
          (\<lambda>x. case x of
                 Epoch d l n b \<Rightarrow>
                   Some \<lparr>distribute = d, epoch_length = l, number = n, epoch_endBlock = b\<rparr>
               | _ \<Rightarrow> None),
      stakedToken_circulatingSupply =
        next_reply (\<lambda>x. case x of Supply n \<Rightarrow> Some n | _ \<Rightarrow> None),
      timetracker_average = next_reply (\<lambda>x. case x of Average \<Rightarrow> Some () | _ \<Rightarrow> None),
      redeemHelper_redeemAll_tx = next_reply (\<lambda>x. case x of Sent h \<Rightarrow> Some h | _ \<Rightarrow> None),
      tx_wait =
        (\<lambda>h. next_reply
           (\<lambda>x. case x of
                  Receipt h' b \<Rightarrow> Some \<lparr>transactionHash = h', blockNumber = b\<rparr>
                | _ \<Rightarrow> None))\<rparr>"

text \<open>A registry entry for the bond at \<open>a\<close>; \<open>bulk\<close> is its \<^verbatim>\<open>redeemHelper\<close> flag.\<close>

definition position :: "address \<Rightarrow> bool \<Rightarrow> address \<times> elem" where
  "position a bulk = (a, \<lparr>name = a, bond = \<lparr>contract_address = a\<rparr>, redeemHelper = bulk\<rparr>)"

definition one :: Bonds where
  "one = [position ''a'' True]"

definition two :: Bonds where
  "two = [position ''a'' True, position ''b'' False]"

definition three :: Bonds where
  "three = [position ''a'' True, position ''b'' False, position ''c'' True]"

text \<open>The loop data of epoch \<open>12\<close>, ending at block \<open>1000\<close>, seen at block \<open>n\<close>.\<close>

definition info12 :: "int \<Rightarrow> StakingInformation" where
  "info12 n = \<lparr>epochNumber = 12, info_blockNumber = n, endBlock = 1000, delta = 1000 - n\<rparr>"

text \<open>The state after epoch \<open>12\<close> has been redeemed in block \<open>999\<close>.\<close>

definition marked12 :: bot where
  "marked12 = \<lparr>epochs = [(12, 999)], paused = False\<rparr>"

text \<open>
  Three runs that meet epoch \<open>12\<close>: two of them two blocks before its end, each
  with a redeem that is confirmed, and one a block later.
\<close>

definition first_run :: "reply list" where
  "first_run = [Info 12 1000 998, Payout 5, Balance 1, Payout 5, Receipt ''0xa'' 999]"

definition second_run :: "reply list" where
  "second_run = [Info 12 1000 998, Payout 5, Balance 1, Payout 5, Receipt ''0xb'' 1000]"

definition third_run :: "reply list" where
  "third_run = [Info 12 1000 999, Payout 7, Balance 1]"

text \<open>The status queries of the older handler, two blocks before the end of epoch \<open>12\<close>.\<close>

definition legacy_status :: "reply list" where
  "legacy_status =
     [Block 998, Epoch 500 200 12 1000, Supply 1000000, Average, Payout 5, Balance 1]"

text \<open>A script for the discovery of two bonds.\<close>

definition discovery :: "reply list" where
  "discovery =
     [Addresses [''x''],
      Loaded ''x'', Connected, Symbols ''EXOD'' ''DAI'', Terms 345600,
      Rejects,
      Loaded ''y'', Connected, Symbols ''MAI'' [], Terms 86400]"

section \<open>Replies of the scripted chain\<close>

lemma replay_pendingPayoutFor:
  "bond_pendingPayoutFor replay a (Payout p # w) = (Inr p, w)"
  "bond_pendingPayoutFor replay a (Rejects # w) = (Inl (Thrown ''rejected''), w)"
  by (simp_all add: replay_def next_reply_def)

lemma replay_info:
  "getLoopData replay (Info 12 1000 n # w) =
     (if - (2 ^ 53) < n \<and> n < 2 ^ 53 then Some (info12 n, w) else getLoopData replay w)"
  by (subst getLoopData.simps)
     (simp add: replay_def next_reply_def loopData_def toNumber_def info12_def)

lemma replay_balance:
  "wallet_getBalance replay (Balance b # w) = (Inr b, w)"
  "wallet_getBalance replay (Rejects # w) = (Inl (Thrown ''rejected''), w)"
  by (simp_all add: replay_def next_reply_def)

lemma replay_redeemAll:
  "redeemHelper_redeemAll replay (Receipt h b # w) = (Inr \<lparr>transactionHash = h, blockNumber = b\<rparr>, w)"
  "redeemHelper_redeemAll replay (Rejects # w) = (Inl (Thrown ''rejected''), w)"
  by (simp_all add: replay_def next_reply_def)

lemma replay_redeem:
  "bond_redeem replay a (Receipt h b # w) = (Inr \<lparr>transactionHash = h, blockNumber = b\<rparr>, w)"
  "bond_redeem replay a (Rejects # w) = (Inl (Thrown ''rejected''), w)"
  by (simp_all add: replay_def next_reply_def)

lemmas replay_simps =
  replay_info replay_balance replay_redeemAll replay_redeem replay_pendingPayoutFor

lemma info12_fields: "epochNumber (info12 n) = 12" "delta (info12 n) = 1000 - n"
  by (simp_all add: info12_def)

lemma initial_fields: "epochs initial = []" "paused initial = False"
  by (simp_all add: initial_def)

lemma marked12_fields: "epochs marked12 = [(12, 999)]" "paused marked12 = False"
  by (simp_all add: marked12_def)

lemma gwei_positive: "gwei n > 0 \<longleftrightarrow> n > 0"
  by (simp add: gwei_def)

lemma replay_evaluating:
  "evaluating replay one (Info 12 1000 998 # Payout p # Balance 1 # w) = Some (Inr (info12 998, gwei p), w)"
  "evaluating replay one (Info 12 1000 600 # Payout p # Balance 1 # w) = Some (Inr (info12 600, gwei p), w)"
  "evaluating replay one (Info 12 1000 999 # Payout p # Balance 1 # w) = Some (Inr (info12 999, gwei p), w)"
  by (simp_all add: evaluating_def checkBonds_def one_def position_def attemptPayout.simps
      replay_simps secondsToHuman_def info12_fields)

lemma replay_redeem_and_stake:
  "redeem_and_stake replay [] one (info12 998) initial [Payout 5, Receipt ''0xa'' 999] =
     Some ([TimerToggle, TryingToRedeem, RedeemAllTx, RedeemedAndStaked ''0xa'' 999, TimerToggle],
           \<lparr>epochs = [(12, 999)], paused = False\<rparr>, [])"
  by (simp add: redeem_and_stake_def redeemBonds_def checkBonds_def one_def position_def
      attemptPayout.simps replay_simps gwei_def toggle_def initial_def info12_def)

section \<open>The older handler\<close>

text \<open>
  The step of the older handler keeps the timer as it was and adds at most one
  entry, for the epoch it was entered with; a redeem that is not sent or not
  confirmed leaves the state as it was.
\<close>

lemma legacy_redeem_and_stake_result:
  "legacy_redeem_and_stake s e st w = (evs, st', w') \<Longrightarrow>
     TryingToRedeem \<in> set evs \<and> paused st' = paused st \<and>
     (epochs st' = epochs st \<or>
      (\<exists>b. epochs st' = AList.update e b (epochs st)))"
  by (auto simp: legacy_redeem_and_stake_def toggle_def split: prod.splits sum.splits)

lemma legacy_tick_evaluated:
  "legacy_evaluating r s bonds w = Some (Inr (k, d, p), w1) \<Longrightarrow>
   legacy_tick r s bonds st w =
     (if d \<le> 300 \<and> map_of (epochs st) k = None \<and> p > 0
      then Some (legacy_redeem_and_stake s k st w1) else Some ([], st, w1))"
  by (simp add: legacy_tick_def)

lemma legacy_redeem_error:
  assumes "redeemHelper_redeemAll_tx s w = (Inl e, w') \<or>
           (\<exists>hash w1. redeemHelper_redeemAll_tx s w = (Inr hash, w1) \<and> tx_wait s hash w1 = (Inl e, w'))"
  shows "legacy_redeem_and_stake s epoch_number st w =
           ([TimerToggle, TryingToRedeem, RedeemAllTx, TimerToggle], st, w')"
  using assms by (auto simp: legacy_redeem_and_stake_def toggle_def)

lemma replay_legacy_evaluating:
  "legacy_evaluating replay replay_staking one
     (Block 998 # Epoch 500 200 12 1000 # Supply 1000000 # Average # Payout 5 # Balance 1 # w)
     = Some (Inr (12, 2, 5), w)"
  "legacy_evaluating replay replay_staking one
     (Block 600 # Epoch 500 200 12 1000 # Supply 1000000 # Average # Payout 5 # Balance 1 # w)
     = Some (Inr (12, 400, 5), w)"
  "legacy_evaluating replay replay_staking one
     (Block 998 # Epoch 500 200 12 1000 # Supply 1000000 # Average # Payout 0 # Balance 1 # w)
     = Some (Inr (12, 2, 0), w)"
  "legacy_evaluating replay replay_staking one
     (Block 998 # Epoch 500 200 12 1000 # Supply 1000000 # Average # Payout 5 # Rejects # w)
     = Some (Inl (Thrown ''rejected''), w)"
  by (simp_all add: legacy_evaluating_def await_def converted_def toNumber_def replay_staking_def
      next_reply_def checkBonds_BigNumber_def one_def position_def attemptPayout.simps
      replay_simps secondsToHuman_def)

lemma replay_staking_redeem:
  "redeemHelper_redeemAll_tx replay_staking (Sent h # w) = (Inr h, w)"
  "tx_wait replay_staking h (Receipt h' b # w) = (Inr \<lparr>transactionHash = h', blockNumber = b\<rparr>, w)"
  "tx_wait replay_staking h (Rejects # w) = (Inl (Thrown ''rejected''), w)"
  by (simp_all add: replay_staking_def next_reply_def)

lemma replay_legacy_tick:
  "legacy_tick replay replay_staking one initial
     [Block 998, Epoch 500 200 12 1000, Supply 1000000, Average, Payout 5, Balance 1,
      Sent ''0xa'', Receipt ''0xa'' 999]
     = Some ([TimerToggle, TryingToRedeem, RedeemAllTx, RedeemedAndStaked ''0xa'' 999, TimerToggle],
             marked12, [])"
  "legacy_tick replay replay_staking one marked12
     [Block 998, Epoch 500 200 12 1000, Supply 1000000, Average, Payout 5, Balance 1]
     = Some ([], marked12, [])"
  "legacy_tick replay replay_staking one initial
     [Block 998, Epoch 500 200 12 1000, Supply 1000000, Average, Payout 5, Balance 1,
      Sent ''0xa'', Rejects]
     = Some ([TimerToggle, TryingToRedeem, RedeemAllTx, TimerToggle], initial, [])"
  by (simp_all add: legacy_tick_evaluated [OF replay_legacy_evaluating(1)] legacy_redeem_and_stake_def
      replay_staking_redeem toggle_def initial_def marked12_def)

section \<open>The value aggregation\<close>

lemma checkBonds_loop_pendingValues:
  "checkBonds_loop r ig bonds acc w =
     (case pendingValues r (eligible ig bonds) w of
        None \<Rightarrow> None
      | Some (ps, w') \<Rightarrow> Some (acc + sum_list ps, w'))"
  by (induction bonds arbitrary: acc w) (auto simp: eligible_def split: option.splits prod.splits)

text \<open>
  C7, as amended. \<^verbatim>\<open>checkBonds\<close> over an empty registry returns zero. Over any
  registry its accumulator ends as the exact sum of the pending values of the
  positions it looks at, and the function returns exactly when every position
  eventually answers. What it returns is that sum converted from gwei, that is
  scaled by \<open>10\<^sup>-\<^sup>9\<close>, up to the rounding of a double: it is positive when the
  sum is, zero when the sum is, and for sums below \<open>10\<^sup>3\<^sup>0\<^sup>0\<close> within one part in
  \<open>2\<^sup>5\<^sup>2\<close> of the scaled sum. For pending values \<open>5\<close>, \<open>0\<close> and \<open>3\<close> the
  accumulator is \<open>8\<close> and the result lies between \<open>7 \<cdot> 10\<^sup>-\<^sup>9\<close> and
  \<open>9 \<cdot> 10\<^sup>-\<^sup>9\<close>.
\<close>

theorem checkBonds_sum:
  "checkBonds r [] ig w = Some (0, w) \<and>
   checkBonds_loop r ig bonds 0 w =
     (case pendingValues r (eligible ig bonds) w of
        None \<Rightarrow> None
      | Some (ps, w') \<Rightarrow> Some (sum_list ps, w')) \<and>
   (checkBonds r bonds ig w = None \<longleftrightarrow> pendingValues r (eligible ig bonds) w = None) \<and>
   (\<forall>ps w'. pendingValues r (eligible ig bonds) w = Some (ps, w') \<longrightarrow>
      (\<exists>v. checkBonds r bonds ig w = Some (v, w') \<and>
           (0 < v \<longleftrightarrow> 0 < sum_list ps) \<and> (v = 0 \<longleftrightarrow> sum_list ps = 0) \<and>
           (\<bar>sum_list ps\<bar> < 10 ^ 300 \<longrightarrow>
              \<bar>v - of_int (sum_list ps) / 10 ^ 9\<bar> \<le> \<bar>of_int (sum_list ps)\<bar> / 10 ^ 9 / 2 ^ 52))) \<and>
   (pendingValues r (eligible False bonds) w = Some ([5, 0, 3], w') \<longrightarrow>
      checkBonds_loop r False bonds 0 w = Some (8, w') \<and>
      (\<exists>v. checkBonds r bonds False w = Some (v, w') \<and> 7 / 10 ^ 9 < v \<and> v < 9 / 10 ^ 9))"
proof -
  have empty: "checkBonds r [] ig w = Some (0, w)"
    by (simp add: checkBonds_def gwei_def)
  have acc: "checkBonds_loop r ig bonds 0 w =
     (case pendingValues r (eligible ig bonds) w of
        None \<Rightarrow> None
      | Some (ps, w') \<Rightarrow> Some (sum_list ps, w'))" for ig
    by (simp add: checkBonds_loop_pendingValues split: option.splits)
  have returns: "checkBonds r bonds ig w = None \<longleftrightarrow> pendingValues r (eligible ig bonds) w = None"
    by (simp add: checkBonds_def acc split: option.splits)
  have converted: "\<exists>v. checkBonds r bonds ig w = Some (v, w') \<and>
           (0 < v \<longleftrightarrow> 0 < sum_list ps) \<and> (v = 0 \<longleftrightarrow> sum_list ps = 0) \<and>
           (\<bar>sum_list ps\<bar> < 10 ^ 300 \<longrightarrow>
              \<bar>v - of_int (sum_list ps) / 10 ^ 9\<bar> \<le> \<bar>of_int (sum_list ps)\<bar> / 10 ^ 9 / 2 ^ 52)"
    if "pendingValues r (eligible ig bonds) w = Some (ps, w')" for ps w'
  proof -
    from that have "checkBonds r bonds ig w = Some (gwei (sum_list ps), w')"
      by (simp add: checkBonds_def acc)
    moreover have "0 < gwei (sum_list ps) \<longleftrightarrow> 0 < sum_list ps"
      by (rule gwei_positive)
    moreover have "gwei (sum_list ps) = 0 \<longleftrightarrow> sum_list ps = 0"
      by (simp add: gwei_def)
    moreover have "\<bar>gwei (sum_list ps) - of_int (sum_list ps) / 10 ^ 9\<bar>
        \<le> \<bar>of_int (sum_list ps)\<bar> / 10 ^ 9 / 2 ^ 52"
      by (simp add: gwei_def)
    ultimately show ?thesis by blast
  qed
  have example: "checkBonds_loop r False bonds 0 w = Some (8, w') \<and>
      (\<exists>v. checkBonds r bonds False w = Some (v, w') \<and> 7 / 10 ^ 9 < v \<and> v < 9 / 10 ^ 9)"
    if "pendingValues r (eligible False bonds) w = Some ([5, 0, 3], w')"
  proof -
    from that have l: "checkBonds_loop r False bonds 0 w = Some (8, w')"
      by (simp add: acc)
    then have "checkBonds r bonds False w = Some (gwei 8, w')"
      by (simp add: checkBonds_def)
    moreover have "7 / 10 ^ 9 < gwei 8 \<and> gwei 8 < 9 / 10 ^ 9"
      by (simp add: gwei_def)
    ultimately show ?thesis using l by blast
  qed
  from empty acc [of ig] returns converted example show ?thesis by blast
qed

text \<open>
  Three positions reporting \<open>5\<close>, \<open>0\<close> and \<open>3\<close>, the first after one failed query
  and the last after two.
\<close>

theorem checkBonds_sum_witness:
  "pendingValues replay (eligible False three)
     [Rejects, Payout 5, Payout 0, Rejects, Rejects, Payout 3] = Some ([5, 0, 3], []) \<and>
   \<bar>sum_list [5, 0, 3 :: int]\<bar> < 10 ^ 300 \<and>
   checkBonds_loop replay False three 0
     [Rejects, Payout 5, Payout 0, Rejects, Rejects, Payout 3] = Some (8, []) \<and>
   (\<exists>v. checkBonds replay three False
           [Rejects, Payout 5, Payout 0, Rejects, Rejects, Payout 3] = Some (v, []) \<and>
         7 / 10 ^ 9 < v \<and> v < 9 / 10 ^ 9) \<and>
   (\<exists>v. checkBonds replay three False
           [Rejects, Payout 5, Payout 0, Rejects, Rejects, Payout 3] = Some (v, []) \<and>
         (0 < v \<longleftrightarrow> 0 < sum_list [5, 0, 3 :: int]) \<and>
         \<bar>v - of_int (sum_list [5, 0, 3]) / 10 ^ 9\<bar> \<le> \<bar>of_int (sum_list [5, 0, 3])\<bar> / 10 ^ 9 / 2 ^ 52)"
proof -
  have ps: "pendingValues replay (eligible False three)
     [Rejects, Payout 5, Payout 0, Rejects, Rejects, Payout 3] = Some ([5, 0, 3], [])"
    by (simp add: eligible_def three_def position_def attemptPayout.simps replay_pendingPayoutFor)
  have small: "\<bar>sum_list [5, 0, 3 :: int]\<bar> < 10 ^ 300"
    by simp
  note sum = checkBonds_sum [where r = replay and bonds = three and w' = "[]" and ig = False
      and w = "[Rejects, Payout 5, Payout 0, Rejects, Rejects, Payout 3]"]
  from sum ps
  have example: "checkBonds_loop replay False three 0
       [Rejects, Payout 5, Payout 0, Rejects, Rejects, Payout 3] = Some (8, []) \<and>
     (\<exists>v. checkBonds replay three False
             [Rejects, Payout 5, Payout 0, Rejects, Rejects, Payout 3] = Some (v, []) \<and>
           7 / 10 ^ 9 < v \<and> v < 9 / 10 ^ 9)"
    by blast
  from sum ps small
  have "\<exists>v. checkBonds replay three False
           [Rejects, Payout 5, Payout 0, Rejects, Rejects, Payout 3] = Some (v, []) \<and>
         (0 < v \<longleftrightarrow> 0 < sum_list [5, 0, 3 :: int]) \<and>
         \<bar>v - of_int (sum_list [5, 0, 3]) / 10 ^ 9\<bar> \<le> \<bar>of_int (sum_list [5, 0, 3])\<bar> / 10 ^ 9 / 2 ^ 52"
    by blast
  with ps small example show ?thesis by blast
qed

text \<open>
  The claim as stated fails: with pending values \<open>5\<close>, \<open>0\<close> and \<open>3\<close> the function
  returns \<open>8 \<cdot> 10\<^sup>-\<^sup>9\<close>, not \<open>8\<close>.
\<close>

theorem checkBonds_units_counterexample:
  "checkBonds replay three False [Payout 5, Payout 0, Payout 3] = Some (gwei 8, []) \<and> gwei 8 \<noteq> 8"
  by (simp add: checkBonds_def three_def position_def attemptPayout.simps
      replay_pendingPayoutFor gwei_def)

section \<open>The handler and the ledger\<close>

lemma record_receipts_last:
  "record_receipts e receipts m =
     (if receipts = [] then m else AList.update e (blockNumber (last receipts)) m)"
proof (induction receipts arbitrary: m)
  case Nil
  show ?case by simp
next
  case (Cons receipt receipts)
  then show ?case by simp
qed

lemma map_of_record_receipts:
  "map_of (record_receipts e receipts m) k =
     (if receipts \<noteq> [] \<and> k = e then Some (blockNumber (last receipts)) else map_of m k)"
  by (simp add: record_receipts_last update_conv')

lemma distinct_record_receipts:
  "distinct (map fst m) \<Longrightarrow> distinct (map fst (record_receipts e receipts m))"
  by (simp add: record_receipts_last distinct_update)

lemma redeem_and_stake_result:
  "redeem_and_stake r A bonds info st w =
     (case redeemBonds r bonds A w of
        None \<Rightarrow> None
      | Some (evs, Inl e, w') \<Rightarrow>
          Some ([TimerToggle, TryingToRedeem] @ evs @ [ErrorRedeeming e, TimerToggle], st, w')
      | Some (evs, Inr receipts, w') \<Rightarrow>
          Some ([TimerToggle, TryingToRedeem] @ evs
                  @ map (\<lambda>receipt. RedeemedAndStaked (transactionHash receipt) (blockNumber receipt))
                      receipts
                  @ [TimerToggle],
                st\<lparr>epochs := record_receipts (epochNumber info) receipts (epochs st)\<rparr>, w'))"
  by (simp add: redeem_and_stake_def toggle_def split: option.splits prod.splits sum.splits)

lemma redeem_and_stake_entered:
  "redeem_and_stake r A bonds info st w = Some (evs, st', w') \<Longrightarrow> TryingToRedeem \<in> set evs"
  by (auto simp: redeem_and_stake_result split: option.splits prod.splits sum.splits)

lemma tick_evaluated:
  "evaluating r bonds w = Some (Inr (info, bondPayout), w1) \<Longrightarrow>
   tick r A bonds st w =
     (if trigger_condition st info bondPayout
      then redeem_and_stake r A bonds info st w1 else Some ([], st, w1))"
  by (simp add: tick_def trigger_condition_def)


lemma replay_silence: "getLoopData replay [] = None"
proof (rule ccontr)
  assume "getLoopData replay [] \<noteq> None"
  then obtain y where y: "getLoopData replay [] = Some y" by auto
  define P where "P = (\<lambda>(r :: reply list remote) (w :: reply list). r = replay \<longrightarrow> w \<noteq> [])"
  have "P replay []"
  proof (rule getLoopData.raw_induct [where P = "\<lambda>r w y. P r w", OF _ y])
    fix attempt and r :: "reply list remote" and w y
    assume IH: "\<And>r w y. attempt r w = Some y \<Longrightarrow> P r w"
      and body: "(case helper_info r w of
        (Inl e, w') \<Rightarrow> attempt r w'
      | (Inr result, w') \<Rightarrow>
          (case loopData result of
             None \<Rightarrow> attempt r w'
           | Some i \<Rightarrow> Some (i, w'))) = Some y"
    show "P r w"
    proof (cases "r = replay \<and> w = []")
      case False
      then show ?thesis by (auto simp: P_def)
    next
      case True
      with body have "attempt replay [] = Some y"
        by (simp add: replay_def next_reply_def)
      from IH [OF this] show ?thesis using True by (simp add: P_def)
    qed
  qed
  then show False by (simp add: P_def)
qed

lemma replay_far_info:
  "getLoopData replay (Info 12 9000000000000000 0 # w) =
     Some (\<lparr>epochNumber = 12, info_blockNumber = 0, endBlock = 9000000000000000,
            delta = 9000000000000000\<rparr>, w)"
  by (subst getLoopData.simps) (simp add: replay_def next_reply_def loopData_def toNumber_def)

lemma replay_one_all:
  "checkBonds replay one False (Payout p # w) = Some (gwei p, w)"
  by (simp add: checkBonds_def one_def position_def attemptPayout.simps replay_simps)

text \<open>
  C3, as amended. The test of line 207 is reached only by a tick whose queries
  and status lines complete: \<^verbatim>\<open>getLoopData\<close> and \<^verbatim>\<open>checkBonds\<close> return,
  \<^verbatim>\<open>Tools.secondsToHuman(info.delta)\<close> does not throw and \<^verbatim>\<open>wallet.getBalance()\<close>
  resolves. Take such a tick, with loop data \<open>info\<close> and aggregated pending
  value \<open>pendingValue\<close>. If the end of the epoch is at most 300 blocks away, the
  epoch number has no entry in the ledger and the pending value is positive, the
  handler runs the redeem-and-stake step. If any one of the three fails, the
  handler does nothing: no toggle, no log line of the step, no transaction, and
  the state is as before. A handler that ran to its end has announced the step
  exactly when all three hold. Conversely, whenever a handler has announced the
  step, its status lines had completed and all three held.

  A tick in which the status line of \<^verbatim>\<open>info.delta\<close> throws or
  \<^verbatim>\<open>wallet.getBalance()\<close> rejects ends there as an unhandled rejection, and a tick
  whose loop data or payouts never arrive never ends: neither enters the step,
  whatever the three conditions are.

  The older handler behaves alike, with its own status queries.
\<close>

theorem tick_trigger_iff:
  "(evaluating r bonds w = Some (Inr (info, pendingValue), w1) \<longrightarrow>
      (delta info \<le> 300 \<and> map_of (epochs st) (epochNumber info) = None \<and> pendingValue > 0 \<longrightarrow>
         tick r A bonds st w = redeem_and_stake r A bonds info st w1) \<and>
      (300 < delta info \<longrightarrow> tick r A bonds st w = Some ([], st, w1)) \<and>
      (map_of (epochs st) (epochNumber info) \<noteq> None \<longrightarrow> tick r A bonds st w = Some ([], st, w1)) \<and>
      (pendingValue \<le> 0 \<longrightarrow> tick r A bonds st w = Some ([], st, w1)) \<and>
      (\<forall>evs st' w'. tick r A bonds st w = Some (evs, st', w') \<longrightarrow>
         (TryingToRedeem \<in> set evs \<longleftrightarrow>
            delta info \<le> 300 \<and> map_of (epochs st) (epochNumber info) = None \<and> pendingValue > 0))) \<and>
   (tick r A bonds st w = Some (evs, st', w') \<and> TryingToRedeem \<in> set evs \<longrightarrow>
      (\<exists>info p w1. evaluating r bonds w = Some (Inr (info, p), w1) \<and>
         delta info \<le> 300 \<and> map_of (epochs st) (epochNumber info) = None \<and> p > 0)) \<and>
   (evaluating r bonds w = Some (Inl e, w1) \<longrightarrow>
      tick r A bonds st w = Some ([UnhandledRejection e], st, w1)) \<and>
   (evaluating r bonds w = None \<longrightarrow> tick r A bonds st w = None) \<and>
   (getLoopData r w = Some (info, wa) \<and> checkBonds r bonds False wa = Some (pendingValue, wb) \<longrightarrow>
      (secondsToHuman (delta info) = None \<longrightarrow>
         evaluating r bonds w = Some (Inl (Thrown ''RangeError: Invalid time value''), wb)) \<and>
      (secondsToHuman (delta info) \<noteq> None \<and> wallet_getBalance r wb = (Inl e, wc) \<longrightarrow>
         evaluating r bonds w = Some (Inl e, wc)) \<and>
      (secondsToHuman (delta info) \<noteq> None \<and> wallet_getBalance r wb = (Inr balance, wc) \<longrightarrow>
         evaluating r bonds w = Some (Inr (info, pendingValue), wc))) \<and>
   (getLoopData r w = None \<or>
    (getLoopData r w = Some (info, wa) \<and> checkBonds r bonds False wa = None) \<longrightarrow>
      evaluating r bonds w = None) \<and>
   (legacy_evaluating r s bonds w = Some (Inr (k, d, p), w1) \<longrightarrow>
      (d \<le> 300 \<and> map_of (epochs st) k = None \<and> p > 0 \<longrightarrow>
         legacy_tick r s bonds st w = Some (legacy_redeem_and_stake s k st w1)) \<and>
      (300 < d \<longrightarrow> legacy_tick r s bonds st w = Some ([], st, w1)) \<and>
      (map_of (epochs st) k \<noteq> None \<longrightarrow> legacy_tick r s bonds st w = Some ([], st, w1)) \<and>
      (p \<le> 0 \<longrightarrow> legacy_tick r s bonds st w = Some ([], st, w1)) \<and>
      (\<forall>evs st' w'. legacy_tick r s bonds st w = Some (evs, st', w') \<longrightarrow>
         (TryingToRedeem \<in> set evs \<longleftrightarrow> d \<le> 300 \<and> map_of (epochs st) k = None \<and> p > 0))) \<and>
   (legacy_tick r s bonds st w = Some (evs, st', w') \<and> TryingToRedeem \<in> set evs \<longrightarrow>
      (\<exists>k d p w1. legacy_evaluating r s bonds w = Some (Inr (k, d, p), w1) \<and>
         d \<le> 300 \<and> map_of (epochs st) k = None \<and> p > 0)) \<and>
   (legacy_evaluating r s bonds w = Some (Inl e, w1) \<longrightarrow>
      legacy_tick r s bonds st w = Some ([UnhandledRejection e], st, w1)) \<and>
   (legacy_evaluating r s bonds w = None \<longrightarrow> legacy_tick r s bonds st w = None)"
proof -
  have completed: "(delta info \<le> 300 \<and> map_of (epochs st) (epochNumber info) = None \<and> pendingValue > 0 \<longrightarrow>
         tick r A bonds st w = redeem_and_stake r A bonds info st w1) \<and>
      (300 < delta info \<longrightarrow> tick r A bonds st w = Some ([], st, w1)) \<and>
      (map_of (epochs st) (epochNumber info) \<noteq> None \<longrightarrow> tick r A bonds st w = Some ([], st, w1)) \<and>
      (pendingValue \<le> 0 \<longrightarrow> tick r A bonds st w = Some ([], st, w1)) \<and>
      (\<forall>evs st' w'. tick r A bonds st w = Some (evs, st', w') \<longrightarrow>
         (TryingToRedeem \<in> set evs \<longleftrightarrow>
            delta info \<le> 300 \<and> map_of (epochs st) (epochNumber info) = None \<and> pendingValue > 0))"
    if ev: "evaluating r bonds w = Some (Inr (info, pendingValue), w1)"
  proof (intro conjI impI)
    note t = tick_evaluated [OF ev, of A st]
    have entered: "TryingToRedeem \<in> set evs \<longleftrightarrow> trigger_condition st info pendingValue"
      if "tick r A bonds st w = Some (evs, st', w')" for evs st' w'
    proof (cases "trigger_condition st info pendingValue")
      case True
      with t that have "redeem_and_stake r A bonds info st w1 = Some (evs, st', w')" by simp
      from redeem_and_stake_entered [OF this] True show ?thesis by simp
    next
      case False
      with t that show ?thesis by auto
    qed
    show "tick r A bonds st w = redeem_and_stake r A bonds info st w1"
      if "delta info \<le> 300 \<and> map_of (epochs st) (epochNumber info) = None \<and> pendingValue > 0"
      using t that by (simp add: trigger_condition_def)
    show "tick r A bonds st w = Some ([], st, w1)" if "300 < delta info"
      using t that by (simp add: trigger_condition_def)
    show "tick r A bonds st w = Some ([], st, w1)" if "map_of (epochs st) (epochNumber info) \<noteq> None"
      using t that by (simp add: trigger_condition_def)
    show "tick r A bonds st w = Some ([], st, w1)" if "pendingValue \<le> 0"
      using t that by (simp add: trigger_condition_def)
    show "\<forall>evs st' w'. tick r A bonds st w = Some (evs, st', w') \<longrightarrow>
           (TryingToRedeem \<in> set evs \<longleftrightarrow>
              delta info \<le> 300 \<and> map_of (epochs st) (epochNumber info) = None \<and> pendingValue > 0)"
      using entered by (simp add: trigger_condition_def)
  qed
  have announced: "\<exists>info p w1. evaluating r bonds w = Some (Inr (info, p), w1) \<and>
         delta info \<le> 300 \<and> map_of (epochs st) (epochNumber info) = None \<and> p > 0"
    if a: "tick r A bonds st w = Some (evs, st', w') \<and> TryingToRedeem \<in> set evs"
  proof (cases "evaluating r bonds w")
    case None
    with a show ?thesis by (simp add: tick_def)
  next
    case (Some x)
    then obtain res v where ev: "evaluating r bonds w = Some (res, v)" by (cases x) auto
    show ?thesis
    proof (cases res)
      case (Inl e)
      with ev a show ?thesis by (auto simp: tick_def)
    next
      case (Inr y)
      then obtain i p where ev': "evaluating r bonds w = Some (Inr (i, p), v)"
        using ev by (cases y) auto
      from a tick_evaluated [OF ev', of A st] have "trigger_condition st i p"
        by (cases "trigger_condition st i p") auto
      with ev' show ?thesis by (auto simp: trigger_condition_def)
    qed
  qed
  have rejected: "tick r A bonds st w = Some ([UnhandledRejection e], st, w1)"
    if "evaluating r bonds w = Some (Inl e, w1)"
    using that by (simp add: tick_def)
  have hangs: "tick r A bonds st w = None" if "evaluating r bonds w = None"
    using that by (simp add: tick_def)
  have status: "(secondsToHuman (delta info) = None \<longrightarrow>
         evaluating r bonds w = Some (Inl (Thrown ''RangeError: Invalid time value''), wb)) \<and>
      (secondsToHuman (delta info) \<noteq> None \<and> wallet_getBalance r wb = (Inl e, wc) \<longrightarrow>
         evaluating r bonds w = Some (Inl e, wc)) \<and>
      (secondsToHuman (delta info) \<noteq> None \<and> wallet_getBalance r wb = (Inr balance, wc) \<longrightarrow>
         evaluating r bonds w = Some (Inr (info, pendingValue), wc))"
    if "getLoopData r w = Some (info, wa) \<and> checkBonds r bonds False wa = Some (pendingValue, wb)"
    using that by (auto simp: evaluating_def)
  have queries: "evaluating r bonds w = None"
    if "getLoopData r w = None \<or>
        (getLoopData r w = Some (info, wa) \<and> checkBonds r bonds False wa = None)"
    using that by (auto simp: evaluating_def)
  have legacy_completed: "(d \<le> 300 \<and> map_of (epochs st) k = None \<and> p > 0 \<longrightarrow>
         legacy_tick r s bonds st w = Some (legacy_redeem_and_stake s k st w1)) \<and>
      (300 < d \<longrightarrow> legacy_tick r s bonds st w = Some ([], st, w1)) \<and>
      (map_of (epochs st) k \<noteq> None \<longrightarrow> legacy_tick r s bonds st w = Some ([], st, w1)) \<and>
      (p \<le> 0 \<longrightarrow> legacy_tick r s bonds st w = Some ([], st, w1)) \<and>
      (\<forall>evs st' w'. legacy_tick r s bonds st w = Some (evs, st', w') \<longrightarrow>
         (TryingToRedeem \<in> set evs \<longleftrightarrow> d \<le> 300 \<and> map_of (epochs st) k = None \<and> p > 0))"
    if ev: "legacy_evaluating r s bonds w = Some (Inr (k, d, p), w1)"
  proof (intro conjI impI allI)
    note t = legacy_tick_evaluated [OF ev, of st]
    show "legacy_tick r s bonds st w = Some (legacy_redeem_and_stake s k st w1)"
      if "d \<le> 300 \<and> map_of (epochs st) k = None \<and> p > 0"
      using t that by simp
    show "legacy_tick r s bonds st w = Some ([], st, w1)" if "300 < d"
      using t that by simp
    show "legacy_tick r s bonds st w = Some ([], st, w1)" if "map_of (epochs st) k \<noteq> None"
      using t that by simp
    show "legacy_tick r s bonds st w = Some ([], st, w1)" if "p \<le> 0"
      using t that by simp
    show "TryingToRedeem \<in> set evs \<longleftrightarrow> d \<le> 300 \<and> map_of (epochs st) k = None \<and> p > 0"
      if "legacy_tick r s bonds st w = Some (evs, st', w')" for evs st' w'
      using that legacy_redeem_and_stake_result [of s k st w1 evs st' w']
      by (auto simp: t split: if_splits)
  qed
  have legacy_announced: "\<exists>k d p w1. legacy_evaluating r s bonds w = Some (Inr (k, d, p), w1) \<and>
         d \<le> 300 \<and> map_of (epochs st) k = None \<and> p > 0"
    if a: "legacy_tick r s bonds st w = Some (evs, st', w') \<and> TryingToRedeem \<in> set evs"
  proof (cases "legacy_evaluating r s bonds w")
    case None
    with a show ?thesis by (simp add: legacy_tick_def)
  next
    case (Some x)
    then obtain res v where ev: "legacy_evaluating r s bonds w = Some (res, v)" by (cases x) auto
    show ?thesis
    proof (cases res)
      case (Inl e)
      with ev a show ?thesis by (auto simp: legacy_tick_def)
    next
      case (Inr y)
      then obtain k d p where ev': "legacy_evaluating r s bonds w = Some (Inr (k, d, p), v)"
        using ev by (cases y) auto
      from a legacy_tick_evaluated [OF ev', of st]
      have "d \<le> 300 \<and> map_of (epochs st) k = None \<and> p > 0"
        by (cases "d \<le> 300 \<and> map_of (epochs st) k = None \<and> p > 0") auto
      with ev' show ?thesis by blast
    qed
  qed
  have legacy_rejected: "legacy_tick r s bonds st w = Some ([UnhandledRejection e], st, w1)"
    if "legacy_evaluating r s bonds w = Some (Inl e, w1)"
    using that by (simp add: legacy_tick_def)
  have legacy_hangs: "legacy_tick r s bonds st w = None" if "legacy_evaluating r s bonds w = None"
    using that by (simp add: legacy_tick_def)
  show ?thesis
    apply (intro conjI)
    subgoal using completed by blast
    subgoal using announced by blast
    subgoal using rejected by blast
    subgoal using hangs by blast
    subgoal using status by blast
    subgoal using queries by blast
    subgoal using legacy_completed by blast
    subgoal using legacy_announced by blast
    subgoal using legacy_rejected by blast
    subgoal using legacy_hangs by blast
    done
qed

text \<open>
  The scenario of epoch \<open>12\<close> ending at block \<open>1000\<close>, for both handlers: in
  the window with a pending value the step runs; far from the end, with the epoch
  marked, or with nothing pending it does not; and it does not when the balance
  query rejects, when the end of the epoch is too far for the status line, or
  when the chain stays silent.
\<close>

theorem tick_trigger_iff_witness:
  "evaluating replay one [Info 12 1000 998, Payout 5, Balance 1, Payout 5, Receipt ''0xa'' 999]
     = Some (Inr (info12 998, gwei 5), [Payout 5, Receipt ''0xa'' 999]) \<and>
   delta (info12 998) \<le> 300 \<and> map_of (epochs initial) (epochNumber (info12 998)) = None \<and> gwei 5 > 0 \<and>
   tick replay [] one initial [Info 12 1000 998, Payout 5, Balance 1, Payout 5, Receipt ''0xa'' 999]
     = Some ([TimerToggle, TryingToRedeem, RedeemAllTx, RedeemedAndStaked ''0xa'' 999, TimerToggle],
             marked12, []) \<and>
   TryingToRedeem
     \<in> set [TimerToggle, TryingToRedeem, RedeemAllTx, RedeemedAndStaked ''0xa'' 999, TimerToggle] \<and>
   (\<exists>info p w1.
      evaluating replay one [Info 12 1000 998, Payout 5, Balance 1, Payout 5, Receipt ''0xa'' 999]
        = Some (Inr (info, p), w1) \<and>
      delta info \<le> 300 \<and> map_of (epochs initial) (epochNumber info) = None \<and> p > 0) \<and>
   300 < delta (info12 600) \<and>
   tick replay [] one initial [Info 12 1000 600, Payout 5, Balance 1] = Some ([], initial, []) \<and>
   map_of (epochs marked12) (epochNumber (info12 998)) \<noteq> None \<and>
   tick replay [] one marked12 [Info 12 1000 998, Payout 5, Balance 1] = Some ([], marked12, []) \<and>
   gwei 0 \<le> 0 \<and>
   tick replay [] one initial [Info 12 1000 998, Payout 0, Balance 1] = Some ([], initial, []) \<and>
   getLoopData replay [Info 12 1000 998, Payout 5, Rejects] = Some (info12 998, [Payout 5, Rejects]) \<and>
   checkBonds replay one False [Payout 5, Rejects] = Some (gwei 5, [Rejects]) \<and>
   secondsToHuman (delta (info12 998)) \<noteq> None \<and>
   wallet_getBalance replay [Rejects] = (Inl (Thrown ''rejected''), []) \<and>
   evaluating replay one [Info 12 1000 998, Payout 5, Rejects] = Some (Inl (Thrown ''rejected''), []) \<and>
   tick replay [] one initial [Info 12 1000 998, Payout 5, Rejects]
     = Some ([UnhandledRejection (Thrown ''rejected'')], initial, []) \<and>
   getLoopData replay [Info 12 9000000000000000 0, Payout 5]
     = Some (\<lparr>epochNumber = 12, info_blockNumber = 0, endBlock = 9000000000000000,
          delta = 9000000000000000\<rparr>, [Payout 5]) \<and>
   checkBonds replay one False [Payout 5] = Some (gwei 5, []) \<and>
   secondsToHuman 9000000000000000 = None \<and>
   tick replay [] one initial [Info 12 9000000000000000 0, Payout 5]
     = Some ([UnhandledRejection (Thrown ''RangeError: Invalid time value'')], initial, []) \<and>
   getLoopData replay [] = None \<and>
   tick replay [] one initial [] = None \<and>
   legacy_evaluating replay replay_staking one
     [Block 998, Epoch 500 200 12 1000, Supply 1000000, Average, Payout 5, Balance 1,
      Sent ''0xa'', Receipt ''0xa'' 999]
     = Some (Inr (12, 2, 5), [Sent ''0xa'', Receipt ''0xa'' 999]) \<and>
   legacy_tick replay replay_staking one initial
     [Block 998, Epoch 500 200 12 1000, Supply 1000000, Average, Payout 5, Balance 1,
      Sent ''0xa'', Receipt ''0xa'' 999]
     = Some ([TimerToggle, TryingToRedeem, RedeemAllTx, RedeemedAndStaked ''0xa'' 999, TimerToggle],
             marked12, []) \<and>
   (\<exists>k d p w1.
      legacy_evaluating replay replay_staking one
        [Block 998, Epoch 500 200 12 1000, Supply 1000000, Average, Payout 5, Balance 1,
      Sent ''0xa'', Receipt ''0xa'' 999]
        = Some (Inr (k, d, p), w1) \<and>
      d \<le> 300 \<and> map_of (epochs initial) k = None \<and> p > 0) \<and>
   legacy_tick replay replay_staking one initial
     [Block 600, Epoch 500 200 12 1000, Supply 1000000, Average, Payout 5, Balance 1]
     = Some ([], initial, []) \<and>
   legacy_tick replay replay_staking one marked12
     [Block 998, Epoch 500 200 12 1000, Supply 1000000, Average, Payout 5, Balance 1]
     = Some ([], marked12, []) \<and>
   legacy_tick replay replay_staking one initial
     [Block 998, Epoch 500 200 12 1000, Supply 1000000, Average, Payout 0, Balance 1]
     = Some ([], initial, []) \<and>
   legacy_evaluating replay replay_staking one
     [Block 998, Epoch 500 200 12 1000, Supply 1000000, Average, Payout 5, Rejects]
     = Some (Inl (Thrown ''rejected''), []) \<and>
   legacy_tick replay replay_staking one initial
     [Block 998, Epoch 500 200 12 1000, Supply 1000000, Average, Payout 5, Rejects]
     = Some ([UnhandledRejection (Thrown ''rejected'')], initial, [])"
proof -
  note test = tick_trigger_iff [where r = replay and A = "[]" and bonds = one and s = replay_staking]
  have facts: "delta (info12 998) \<le> 300" "map_of (epochs initial) (epochNumber (info12 998)) = None"
    "gwei 5 > 0" "300 < delta (info12 600)" "gwei 0 \<le> 0"
    "map_of (epochs marked12) (epochNumber (info12 998)) \<noteq> None"
    "secondsToHuman (delta (info12 998)) \<noteq> None" "secondsToHuman 9000000000000000 = None"
    by (simp_all add: info12_fields initial_fields marked12_fields gwei_def secondsToHuman_def)
  have legacy_facts: "(2 :: int) \<le> 300" "map_of (epochs initial) (12 :: int) = None" "(5 :: int) > 0"
    "(300 :: int) < 400" "map_of (epochs marked12) (12 :: int) \<noteq> None" "(0 :: int) \<le> 0"
    by (simp_all add: initial_fields marked12_fields)
  have "tick replay [] one initial [Info 12 1000 998, Payout 5, Balance 1, Payout 5, Receipt ''0xa'' 999]
     = redeem_and_stake replay [] one (info12 998) initial [Payout 5, Receipt ''0xa'' 999]"
    using test [where st = initial, THEN conjunct1, THEN mp, OF replay_evaluating(1)] facts by blast
  then have fires: "tick replay [] one initial [Info 12 1000 998, Payout 5, Balance 1, Payout 5, Receipt ''0xa'' 999]
     = Some ([TimerToggle, TryingToRedeem, RedeemAllTx, RedeemedAndStaked ''0xa'' 999, TimerToggle],
             marked12, [])"
    by (simp add: replay_redeem_and_stake marked12_def)
  have announced: "TryingToRedeem
     \<in> set [TimerToggle, TryingToRedeem, RedeemAllTx, RedeemedAndStaked ''0xa'' 999, TimerToggle]"
    by simp
  have because: "\<exists>info p w1.
      evaluating replay one [Info 12 1000 998, Payout 5, Balance 1, Payout 5, Receipt ''0xa'' 999]
        = Some (Inr (info, p), w1) \<and>
      delta info \<le> 300 \<and> map_of (epochs initial) (epochNumber info) = None \<and> p > 0"
    using test [where st = initial
        and w = "[Info 12 1000 998, Payout 5, Balance 1, Payout 5, Receipt ''0xa'' 999]"
        and evs = "[TimerToggle, TryingToRedeem, RedeemAllTx, RedeemedAndStaked ''0xa'' 999, TimerToggle]"
        and st' = marked12 and w' = "[]", THEN conjunct2, THEN conjunct1, THEN mp]
      fires announced by blast
  have far: "tick replay [] one initial [Info 12 1000 600, Payout 5, Balance 1] = Some ([], initial, [])"
    using test [where st = initial, THEN conjunct1, THEN mp, OF replay_evaluating(2)] facts by blast
  have marked: "tick replay [] one marked12 [Info 12 1000 998, Payout 5, Balance 1]
      = Some ([], marked12, [])"
    using test [where st = marked12, THEN conjunct1, THEN mp, OF replay_evaluating(1)] facts by blast
  have empty: "tick replay [] one initial [Info 12 1000 998, Payout 0, Balance 1]
      = Some ([], initial, [])"
    using test [where st = initial, THEN conjunct1, THEN mp, OF replay_evaluating(1)] facts by blast
  have info: "getLoopData replay [Info 12 1000 998, Payout 5, Rejects]
      = Some (info12 998, [Payout 5, Rejects])"
    by (simp add: replay_info)
  have payout: "checkBonds replay one False [Payout 5, Rejects] = Some (gwei 5, [Rejects])"
    "checkBonds replay one False [Payout 5] = Some (gwei 5, [])"
    by (simp_all add: replay_one_all)
  have balance: "wallet_getBalance replay [Rejects] = (Inl (Thrown ''rejected''), [])"
    by (rule replay_balance(2))
  have no_balance: "evaluating replay one [Info 12 1000 998, Payout 5, Rejects]
      = Some (Inl (Thrown ''rejected''), [])"
    using test [where w = "[Info 12 1000 998, Payout 5, Rejects]" and info = "info12 998"
        and wa = "[Payout 5, Rejects]" and pendingValue = "gwei 5" and wb = "[Rejects]"
        and e = "Thrown ''rejected''" and wc = "[]", THEN conjunct2, THEN conjunct2, THEN conjunct2, THEN conjunct2, THEN conjunct1, THEN mp]
      info payout(1) balance facts by blast
  have rejected: "tick replay [] one initial [Info 12 1000 998, Payout 5, Rejects]
      = Some ([UnhandledRejection (Thrown ''rejected'')], initial, [])"
    using test [where st = initial, THEN conjunct2, THEN conjunct2, THEN conjunct1, THEN mp, OF no_balance] .
  have far_info: "getLoopData replay [Info 12 9000000000000000 0, Payout 5]
     = Some (\<lparr>epochNumber = 12, info_blockNumber = 0, endBlock = 9000000000000000,
          delta = 9000000000000000\<rparr>, [Payout 5])"
    by (rule replay_far_info)
  have "evaluating replay one [Info 12 9000000000000000 0, Payout 5]
      = Some (Inl (Thrown ''RangeError: Invalid time value''), [])"
    using test [where w = "[Info 12 9000000000000000 0, Payout 5]"
        and info = "\<lparr>epochNumber = 12, info_blockNumber = 0, endBlock = 9000000000000000,
          delta = 9000000000000000\<rparr>"
        and wa = "[Payout 5]" and pendingValue = "gwei 5" and wb = "[]", THEN conjunct2, THEN conjunct2, THEN conjunct2, THEN conjunct2, THEN conjunct1, THEN mp]
      far_info payout(2) facts by simp
  from test [where st = initial, THEN conjunct2, THEN conjunct2, THEN conjunct1, THEN mp, OF this]
  have range: "tick replay [] one initial [Info 12 9000000000000000 0, Payout 5]
     = Some ([UnhandledRejection (Thrown ''RangeError: Invalid time value'')], initial, [])" .
  have "evaluating replay one [] = None"
    using test [where w = "[]", THEN conjunct2, THEN conjunct2, THEN conjunct2, THEN conjunct2, THEN conjunct2, THEN conjunct1, THEN mp] replay_silence by blast
  from test [where st = initial, THEN conjunct2, THEN conjunct2, THEN conjunct2, THEN conjunct1, THEN mp, OF this]
  have silent: "tick replay [] one initial [] = None" .
  note ev = replay_legacy_evaluating(1) [of "[Sent ''0xa'', Receipt ''0xa'' 999]"]
  have "legacy_tick replay replay_staking one initial
     [Block 998, Epoch 500 200 12 1000, Supply 1000000, Average, Payout 5, Balance 1,
      Sent ''0xa'', Receipt ''0xa'' 999]
     = Some (legacy_redeem_and_stake replay_staking 12 initial [Sent ''0xa'', Receipt ''0xa'' 999])"
    using test [where st = initial, THEN conjunct2, THEN conjunct2, THEN conjunct2, THEN conjunct2, THEN conjunct2, THEN conjunct2, THEN conjunct1, THEN mp, OF ev] legacy_facts by blast
  then have legacy_fires: "legacy_tick replay replay_staking one initial
     [Block 998, Epoch 500 200 12 1000, Supply 1000000, Average, Payout 5, Balance 1,
      Sent ''0xa'', Receipt ''0xa'' 999]
     = Some ([TimerToggle, TryingToRedeem, RedeemAllTx, RedeemedAndStaked ''0xa'' 999, TimerToggle],
             marked12, [])"
    by (simp add: legacy_redeem_and_stake_def replay_staking_redeem toggle_def initial_def
        marked12_def)
  have legacy_because: "\<exists>k d p w1.
      legacy_evaluating replay replay_staking one
        [Block 998, Epoch 500 200 12 1000, Supply 1000000, Average, Payout 5, Balance 1,
      Sent ''0xa'', Receipt ''0xa'' 999]
        = Some (Inr (k, d, p), w1) \<and>
      d \<le> 300 \<and> map_of (epochs initial) k = None \<and> p > 0"
    using test [where st = initial
        and w = "[Block 998, Epoch 500 200 12 1000, Supply 1000000, Average, Payout 5, Balance 1,
      Sent ''0xa'', Receipt ''0xa'' 999]"
        and evs = "[TimerToggle, TryingToRedeem, RedeemAllTx, RedeemedAndStaked ''0xa'' 999, TimerToggle]"
        and st' = marked12 and w' = "[]", THEN conjunct2, THEN conjunct2, THEN conjunct2, THEN conjunct2, THEN conjunct2, THEN conjunct2, THEN conjunct2, THEN conjunct1, THEN mp]
      legacy_fires announced by blast
  have legacy_far: "legacy_tick replay replay_staking one initial
     [Block 600, Epoch 500 200 12 1000, Supply 1000000, Average, Payout 5, Balance 1]
     = Some ([], initial, [])"
    using test [where st = initial, THEN conjunct2, THEN conjunct2, THEN conjunct2, THEN conjunct2, THEN conjunct2, THEN conjunct2, THEN conjunct1, THEN mp, OF replay_legacy_evaluating(2)] legacy_facts
    by blast
  have legacy_marked: "legacy_tick replay replay_staking one marked12
     [Block 998, Epoch 500 200 12 1000, Supply 1000000, Average, Payout 5, Balance 1]
     = Some ([], marked12, [])"
    using test [where st = marked12, THEN conjunct2, THEN conjunct2, THEN conjunct2, THEN conjunct2, THEN conjunct2, THEN conjunct2, THEN conjunct1, THEN mp, OF replay_legacy_evaluating(1)] legacy_facts
    by blast
  have legacy_empty: "legacy_tick replay replay_staking one initial
     [Block 998, Epoch 500 200 12 1000, Supply 1000000, Average, Payout 0, Balance 1]
     = Some ([], initial, [])"
    using test [where st = initial, THEN conjunct2, THEN conjunct2, THEN conjunct2, THEN conjunct2, THEN conjunct2, THEN conjunct2, THEN conjunct1, THEN mp, OF replay_legacy_evaluating(3)] legacy_facts
    by blast
  note legacy_no_balance = replay_legacy_evaluating(4) [of "[]"]
  have legacy_rejected: "legacy_tick replay replay_staking one initial
     [Block 998, Epoch 500 200 12 1000, Supply 1000000, Average, Payout 5, Rejects]
     = Some ([UnhandledRejection (Thrown ''rejected'')], initial, [])"
    using test [where st = initial, THEN conjunct2, THEN conjunct2, THEN conjunct2, THEN conjunct2, THEN conjunct2, THEN conjunct2, THEN conjunct2, THEN conjunct2, THEN conjunct1, THEN mp, OF legacy_no_balance] .
  from facts fires announced because far marked empty info payout balance no_balance rejected
    far_info range replay_silence silent ev legacy_fires legacy_because legacy_far legacy_marked
    legacy_empty legacy_no_balance legacy_rejected
    replay_evaluating(1) [of 5 "[Payout 5, Receipt ''0xa'' 999]"]
  show ?thesis by blast
qed

text \<open>
  The claim as stated fails: two blocks before the end of epoch \<open>12\<close>, with an
  empty ledger and a pending value of \<open>5\<close>, all three conditions hold; the
  balance query of the status lines rejects and the handler ends without entering
  the step.
\<close>

theorem tick_trigger_counterexample:
  "getLoopData replay [Info 12 1000 998, Payout 5, Rejects] = Some (info12 998, [Payout 5, Rejects]) \<and>
   checkBonds replay one False [Payout 5, Rejects] = Some (gwei 5, [Rejects]) \<and>
   delta (info12 998) \<le> 300 \<and>
   map_of (epochs initial) (epochNumber (info12 998)) = None \<and>
   gwei 5 > 0 \<and>
   wallet_getBalance replay [Rejects] = (Inl (Thrown ''rejected''), []) \<and>
   tick replay [] one initial [Info 12 1000 998, Payout 5, Rejects]
     = Some ([UnhandledRejection (Thrown ''rejected'')], initial, []) \<and>
   TryingToRedeem \<notin> set [UnhandledRejection (Thrown ''rejected'')]"
  by (simp add: replay_info replay_one_all info12_fields initial_fields gwei_positive
      replay_balance tick_def evaluating_def secondsToHuman_def)

lemma tick_ledger:
  assumes "tick r A bonds st w = Some (evs, st', w')"
  shows "paused st' = paused st \<and>
         (epochs st' = epochs st \<or>
          (\<exists>info p w1 evs1 receipts w2.
             evaluating r bonds w = Some (Inr (info, p), w1) \<and>
             map_of (epochs st) (epochNumber info) = None \<and>
             redeemBonds r bonds A w1 = Some (evs1, Inr receipts, w2) \<and>
             epochs st' = record_receipts (epochNumber info) receipts (epochs st)))"
proof (cases "evaluating r bonds w")
  case None
  with assms show ?thesis by (simp add: tick_def)
next
  case (Some a)
  then obtain res w1 where ev: "evaluating r bonds w = Some (res, w1)" by (cases a) auto
  show ?thesis
  proof (cases res)
    case (Inl e)
    with ev assms show ?thesis by (simp add: tick_def)
  next
    case (Inr b)
    then obtain info p where ev': "evaluating r bonds w = Some (Inr (info, p), w1)"
      using ev by (cases b) auto
    note t = tick_evaluated [OF ev', of A st]
    show ?thesis
    proof (cases "trigger_condition st info p")
      case False
      with t assms show ?thesis by simp
    next
      case True
      with t assms have rs: "redeem_and_stake r A bonds info st w1 = Some (evs, st', w')" by simp
      from True have free: "map_of (epochs st) (epochNumber info) = None"
        by (simp add: trigger_condition_def)
      from rs have "paused st' = paused st \<and>
          (epochs st' = epochs st \<or>
           (\<exists>evs1 receipts w2. redeemBonds r bonds A w1 = Some (evs1, Inr receipts, w2) \<and>
              epochs st' = record_receipts (epochNumber info) receipts (epochs st)))"
        by (auto simp: redeem_and_stake_result split: option.splits prod.splits sum.splits)
      with free ev' show ?thesis by blast
    qed
  qed
qed


section \<open>Overlapping runs and the ledger\<close>

text \<open>
  No action removes an entry of the ledger, and the keys of the ledger stay
  distinct.
\<close>

lemma act_entry:
  assumes "act r A bonds a c = Some (evs, c')" and "map_of (epochs (state c)) e \<noteq> None"
  shows "map_of (epochs (state c')) e \<noteq> None"
proof (cases a)
  case (Fire w)
  with assms show ?thesis by auto
next
  case (Reach i)
  with assms show ?thesis
    by (auto simp: toggle_def split: if_splits handler.splits option.splits prod.splits sum.splits)
next
  case (Settle i)
  with assms show ?thesis
    by (auto simp: toggle_def map_of_record_receipts
        split: if_splits handler.splits option.splits prod.splits sum.splits)
qed

lemma act_distinct:
  assumes "act r A bonds a c = Some (evs, c')" and "distinct (map fst (epochs (state c)))"
  shows "distinct (map fst (epochs (state c')))"
proof (cases a)
  case (Fire w)
  with assms show ?thesis by auto
next
  case (Reach i)
  with assms show ?thesis
    by (auto simp: toggle_def split: if_splits handler.splits option.splits prod.splits sum.splits)
next
  case (Settle i)
  with assms show ?thesis
    by (auto simp: toggle_def distinct_record_receipts
        split: if_splits handler.splits option.splits prod.splits sum.splits)
qed

lemma legacy_act_entry:
  assumes "legacy_act r s bonds a c = Some (evs, c')" and "map_of (epochs (state c)) e \<noteq> None"
  shows "map_of (epochs (state c')) e \<noteq> None"
proof (cases a)
  case (Fire w)
  with assms show ?thesis by auto
next
  case (Reach i)
  with assms show ?thesis
    by (auto simp: toggle_def split: if_splits handler.splits option.splits prod.splits sum.splits)
next
  case (Settle i)
  with assms show ?thesis
    by (auto simp: toggle_def update_conv'
        split: if_splits handler.splits option.splits prod.splits sum.splits)
qed

lemma legacy_act_distinct:
  assumes "legacy_act r s bonds a c = Some (evs, c')" and "distinct (map fst (epochs (state c)))"
  shows "distinct (map fst (epochs (state c')))"
proof (cases a)
  case (Fire w)
  with assms show ?thesis by auto
next
  case (Reach i)
  with assms show ?thesis
    by (auto simp: toggle_def split: if_splits handler.splits option.splits prod.splits sum.splits)
next
  case (Settle i)
  with assms show ?thesis
    by (auto simp: toggle_def distinct_update
        split: if_splits handler.splits option.splits prod.splits sum.splits)
qed

text \<open>What every action keeps, every schedule keeps.\<close>

lemma schedule_invariant:
  assumes step: "\<And>a c evs c'. step a c = Some (evs, c') \<Longrightarrow> P c \<Longrightarrow> P c'"
  shows "schedule step as c = Some (evs, c') \<Longrightarrow> P c \<Longrightarrow> P c'"
proof (induction as arbitrary: c evs)
  case Nil
  then show ?case by simp
next
  case (Cons a as)
  from Cons.prems(1) obtain evs1 c1 evs2
    where s: "step a c = Some (evs1, c1)" and rest: "schedule step as c1 = Some (evs2, c')"
    by (auto split: option.splits)
  from Cons.IH [OF rest step [OF s Cons.prems(2)]] show ?case .
qed

lemma interleaved_entry:
  "interleaved r A bonds as c = Some (evs, c') \<Longrightarrow> map_of (epochs (state c)) e \<noteq> None \<Longrightarrow>
     map_of (epochs (state c')) e \<noteq> None"
  unfolding interleaved_def
  by (rule schedule_invariant [where P = "\<lambda>c. map_of (epochs (state c)) e \<noteq> None"])
     (rule act_entry)

lemma interleaved_distinct:
  "interleaved r A bonds as c = Some (evs, c') \<Longrightarrow> distinct (map fst (epochs (state c))) \<Longrightarrow>
     distinct (map fst (epochs (state c')))"
  unfolding interleaved_def
  by (rule schedule_invariant [where P = "\<lambda>c. distinct (map fst (epochs (state c)))"])
     (rule act_distinct)

lemma legacy_interleaved_entry:
  "legacy_interleaved r s bonds as c = Some (evs, c') \<Longrightarrow> map_of (epochs (state c)) e \<noteq> None \<Longrightarrow>
     map_of (epochs (state c')) e \<noteq> None"
  unfolding legacy_interleaved_def
  by (rule schedule_invariant [where P = "\<lambda>c. map_of (epochs (state c)) e \<noteq> None"])
     (rule legacy_act_entry)

lemma legacy_interleaved_distinct:
  "legacy_interleaved r s bonds as c = Some (evs, c') \<Longrightarrow> distinct (map fst (epochs (state c))) \<Longrightarrow>
     distinct (map fst (epochs (state c')))"
  unfolding legacy_interleaved_def
  by (rule schedule_invariant [where P = "\<lambda>c. distinct (map fst (epochs (state c)))"])
     (rule legacy_act_distinct)

lemma start_fields: "epochs (state start) = []" "pool start = []" "state start = initial"
  by (simp_all add: start_def initial_def)

text \<open>
  Runs that do not overlap are schedules: a whole run of the handler is the
  schedule that starts it, lets it reach the test and, when it entered the step,
  settles its redeem.
\<close>

lemma schedule_append:
  "schedule step (as @ bs) c =
     (case schedule step as c of
        None \<Rightarrow> None
      | Some (evs, c') \<Rightarrow>
          (case schedule step bs c' of
             None \<Rightarrow> None
           | Some (evs', c'') \<Rightarrow> Some (evs @ evs', c'')))"
  by (induction as arbitrary: c) (auto split: option.splits)

lemma tick_interleaved:
  assumes "tick r A bonds (state c) w = Some (evs, st', w')"
  shows "\<exists>as h. interleaved r A bonds as c = Some (evs, \<lparr>state = st', pool = pool c @ [h]\<rparr>)"
proof (cases "evaluating r bonds w")
  case None
  with assms show ?thesis by (simp add: tick_def)
next
  case (Some x)
  then obtain res w1 where ev: "evaluating r bonds w = Some (res, w1)" by (cases x) auto
  show ?thesis
  proof (cases res)
    case (Inl e)
    with ev assms
    have "interleaved r A bonds [Fire w, Reach (length (pool c))] c
            = Some (evs, \<lparr>state = st', pool = pool c @ [Finished]\<rparr>)"
      by (auto simp: interleaved_def tick_def)
    then show ?thesis by blast
  next
    case (Inr y)
    then obtain info p where ev': "evaluating r bonds w = Some (Inr (info, p), w1)"
      using ev by (cases y) auto
    note t = tick_evaluated [OF ev', of A "state c"]
    show ?thesis
    proof (cases "trigger_condition (state c) info p")
      case False
      with t assms ev'
      have "interleaved r A bonds [Fire w, Reach (length (pool c))] c
              = Some (evs, \<lparr>state = st', pool = pool c @ [Finished]\<rparr>)"
        by (auto simp: interleaved_def trigger_condition_def)
      then show ?thesis by blast
    next
      case True
      with t assms have rs: "redeem_and_stake r A bonds info (state c) w1 = Some (evs, st', w')"
        by simp
      with True ev'
      have "interleaved r A bonds [Fire w, Reach (length (pool c)), Settle (length (pool c))] c
              = Some (evs, \<lparr>state = st', pool = pool c @ [Finished]\<rparr>)"
        by (auto simp: interleaved_def trigger_condition_def redeem_and_stake_def toggle_def
            split: option.splits prod.splits sum.splits)
      then show ?thesis by blast
    qed
  qed
qed

lemma ticks_interleaved:
  "ticks r A bonds (state c) ws = Some st' \<Longrightarrow>
     \<exists>as evs c'. interleaved r A bonds as c = Some (evs, c') \<and> state c' = st'"
proof (induction ws arbitrary: c)
  case Nil
  have "interleaved r A bonds [] c = Some ([], c)" by (simp add: interleaved_def)
  with Nil show ?case by auto
next
  case (Cons w ws)
  from Cons.prems obtain evs1 st1 w1
    where t: "tick r A bonds (state c) w = Some (evs1, st1, w1)"
      and rest: "ticks r A bonds st1 ws = Some st'"
    by (auto split: option.splits)
  from tick_interleaved [OF t] obtain as1 h
    where one: "interleaved r A bonds as1 c = Some (evs1, \<lparr>state = st1, pool = pool c @ [h]\<rparr>)"
    by blast
  from rest have "ticks r A bonds (state \<lparr>state = st1, pool = pool c @ [h]\<rparr>) ws = Some st'"
    by simp
  from Cons.IH [OF this] obtain as2 evs2 c'
    where two: "interleaved r A bonds as2 \<lparr>state = st1, pool = pool c @ [h]\<rparr> = Some (evs2, c')"
      and st: "state c' = st'"
    by blast
  from one two have "interleaved r A bonds (as1 @ as2) c = Some (evs1 @ evs2, c')"
    by (simp add: interleaved_def schedule_append)
  with st show ?case by blast
qed

lemma replay_first_tick:
  "tick replay [] one initial [Info 12 1000 998, Payout 5, Balance 1, Payout 5, Receipt ''0xa'' 999]
     = Some ([TimerToggle, TryingToRedeem, RedeemAllTx, RedeemedAndStaked ''0xa'' 999, TimerToggle],
             marked12, [])"
  using tick_evaluated [OF replay_evaluating(1), where st = initial and A = "[]" and p1 = 5]
  by (simp add: replay_redeem_and_stake trigger_condition_def info12_fields initial_fields
      gwei_positive marked12_def)

text \<open>The runs of epoch \<open>12\<close> on the scripted chain.\<close>

lemma replay_one_redeemBonds:
  "redeemBonds replay one [] [Payout 5, Receipt h b]
     = Some ([RedeemAllTx], Inr [\<lparr>transactionHash = h, blockNumber = b\<rparr>], [])"
  by (simp add: redeemBonds_def checkBonds_def one_def position_def attemptPayout.simps
      replay_simps gwei_def)

lemma replay_overlap:
  "interleaved replay [] one
     [Fire first_run, Fire second_run, Fire third_run, Reach 0, Reach 1, Settle 0] start
     = Some ([TimerToggle, TryingToRedeem, TimerToggle, TryingToRedeem,
              RedeemAllTx, RedeemedAndStaked ''0xa'' 999, TimerToggle],
             \<lparr>state = \<lparr>epochs = [(12, 999)], paused = True\<rparr>,
              pool = [Finished, Redeeming (info12 998) [Payout 5, Receipt ''0xb'' 1000],
                      Started third_run]\<rparr>)"
  by (simp add: interleaved_def start_def initial_def first_run_def second_run_def
      replay_evaluating info12_fields gwei_positive toggle_def replay_one_redeemBonds)

lemma replay_overlap_settled:
  "interleaved replay [] one [Settle 1]
     \<lparr>state = \<lparr>epochs = [(12, 999)], paused = True\<rparr>,
      pool = [Finished, Redeeming (info12 998) [Payout 5, Receipt ''0xb'' 1000],
              Started third_run]\<rparr>
     = Some ([RedeemAllTx, RedeemedAndStaked ''0xb'' 1000, TimerToggle],
             \<lparr>state = \<lparr>epochs = [(12, 1000)], paused = False\<rparr>,
              pool = [Finished, Finished, Started third_run]\<rparr>)"
  by (simp add: interleaved_def info12_fields toggle_def replay_one_redeemBonds)

lemma replay_legacy_overlap:
  "legacy_interleaved replay replay_staking one
     [Fire (legacy_status @ [Sent ''0xa'', Receipt ''0xa'' 999]), Fire legacy_status,
      Reach 0, Settle 0] start
     = Some ([TimerToggle, TryingToRedeem, RedeemAllTx, RedeemedAndStaked ''0xa'' 999, TimerToggle],
             \<lparr>state = marked12, pool = [Finished, Started legacy_status]\<rparr>)"
  "legacy_interleaved replay replay_staking one []
     \<lparr>state = marked12, pool = [Finished, Started legacy_status]\<rparr>
     = Some ([], \<lparr>state = marked12, pool = [Finished, Started legacy_status]\<rparr>)"
  by (simp_all add: legacy_interleaved_def start_def initial_def legacy_status_def
      replay_legacy_evaluating replay_staking_redeem toggle_def marked12_def)

text \<open>
  C1. Let the bot have reached, by any schedule of overlapping handler runs, a
  configuration whose ledger has an entry for epoch \<open>e\<close>, and let any further
  schedule follow. A run that then reaches the test of line 207 with epoch \<open>e\<close>
  current ends there, whatever the distance to the end of the epoch and whatever
  the pending value: it toggles nothing, logs nothing and starts no redeem, and
  so does a run that is not overlapped at all. The ledger still has an entry for
  \<open>e\<close>, and it has one entry per epoch number at most. The same holds of the
  older handler.
\<close>

theorem recorded_epoch_never_retriggered:
  "(interleaved r A bonds as0 start = Some (evs0, c0) \<and>
    map_of (epochs (state c0)) e \<noteq> None \<and>
    interleaved r A bonds as c0 = Some (evs, c) \<and>
    i < length (pool c) \<and> pool c ! i = Started w \<and>
    evaluating r bonds w = Some (Inr (info, pendingValue), w1) \<and> epochNumber info = e \<longrightarrow>
      act r A bonds (Reach i) c = Some ([], c\<lparr>pool := (pool c)[i := Finished]\<rparr>) \<and>
      tick r A bonds (state c) w = Some ([], state c, w1) \<and>
      map_of (epochs (state c)) e \<noteq> None \<and>
      distinct (map fst (epochs (state c0))) \<and> distinct (map fst (epochs (state c)))) \<and>
   (legacy_interleaved r s bonds bs0 start = Some (evs0', d0) \<and>
    map_of (epochs (state d0)) e \<noteq> None \<and>
    legacy_interleaved r s bonds bs d0 = Some (evs', d) \<and>
    j < length (pool d) \<and> pool d ! j = Started v \<and>
    legacy_evaluating r s bonds v = Some (Inr (e, blocks, payout), v1) \<longrightarrow>
      legacy_act r s bonds (Reach j) d = Some ([], d\<lparr>pool := (pool d)[j := Finished]\<rparr>) \<and>
      legacy_tick r s bonds (state d) v = Some ([], state d, v1) \<and>
      map_of (epochs (state d)) e \<noteq> None \<and>
      distinct (map fst (epochs (state d0))) \<and> distinct (map fst (epochs (state d))))"
proof (intro conjI impI)
  assume a: "interleaved r A bonds as0 start = Some (evs0, c0) \<and>
    map_of (epochs (state c0)) e \<noteq> None \<and>
    interleaved r A bonds as c0 = Some (evs, c) \<and>
    i < length (pool c) \<and> pool c ! i = Started w \<and>
    evaluating r bonds w = Some (Inr (info, pendingValue), w1) \<and> epochNumber info = e"
  from a interleaved_entry [of r A bonds as c0 evs c e]
  show entry: "map_of (epochs (state c)) e \<noteq> None" by simp
  from a interleaved_distinct [of r A bonds as0 start evs0 c0]
  show d0: "distinct (map fst (epochs (state c0)))" by (simp add: start_fields initial_fields)
  with a interleaved_distinct [of r A bonds as c0 evs c]
  show "distinct (map fst (epochs (state c)))" by simp
  from a entry show "act r A bonds (Reach i) c = Some ([], c\<lparr>pool := (pool c)[i := Finished]\<rparr>)"
    by auto
  from a entry show "tick r A bonds (state c) w = Some ([], state c, w1)"
    by (auto simp: tick_def)
next
  assume a: "legacy_interleaved r s bonds bs0 start = Some (evs0', d0) \<and>
    map_of (epochs (state d0)) e \<noteq> None \<and>
    legacy_interleaved r s bonds bs d0 = Some (evs', d) \<and>
    j < length (pool d) \<and> pool d ! j = Started v \<and>
    legacy_evaluating r s bonds v = Some (Inr (e, blocks, payout), v1)"
  from a legacy_interleaved_entry [of r s bonds bs d0 evs' d e]
  show entry: "map_of (epochs (state d)) e \<noteq> None" by simp
  from a legacy_interleaved_distinct [of r s bonds bs0 start evs0' d0]
  show d0: "distinct (map fst (epochs (state d0)))" by (simp add: start_fields initial_fields)
  with a legacy_interleaved_distinct [of r s bonds bs d0 evs' d]
  show "distinct (map fst (epochs (state d)))" by simp
  from a entry show "legacy_act r s bonds (Reach j) d = Some ([], d\<lparr>pool := (pool d)[j := Finished]\<rparr>)"
    by auto
  from a entry show "legacy_tick r s bonds (state d) v = Some ([], state d, v1)"
    by (auto simp: legacy_tick_def)
qed

text \<open>
  Three runs are in flight over epoch \<open>12\<close>. The first two pass the test two
  blocks before the end, one after the other, before either redeem settles. The
  redeem of the first settles and records block \<open>999\<close>; the redeem of the second
  settles later and overwrites the entry with block \<open>1000\<close>. The third run then
  reaches the test, one block before the end and with a pending value of \<open>7\<close>:
  it does nothing. In the older handler, a run started before the redeem of
  another one was confirmed reaches the test after it: it does nothing either.
\<close>

theorem recorded_epoch_never_retriggered_witness:
  "interleaved replay [] one
     [Fire first_run, Fire second_run, Fire third_run, Reach 0, Reach 1, Settle 0] start
     = Some ([TimerToggle, TryingToRedeem, TimerToggle, TryingToRedeem,
              RedeemAllTx, RedeemedAndStaked ''0xa'' 999, TimerToggle],
             \<lparr>state = \<lparr>epochs = [(12, 999)], paused = True\<rparr>,
              pool = [Finished, Redeeming (info12 998) [Payout 5, Receipt ''0xb'' 1000],
                      Started third_run]\<rparr>) \<and>
   map_of [(12, 999)] (12 :: int) \<noteq> (None :: int option) \<and>
   interleaved replay [] one [Settle 1]
     \<lparr>state = \<lparr>epochs = [(12, 999)], paused = True\<rparr>,
      pool = [Finished, Redeeming (info12 998) [Payout 5, Receipt ''0xb'' 1000],
              Started third_run]\<rparr>
     = Some ([RedeemAllTx, RedeemedAndStaked ''0xb'' 1000, TimerToggle],
             \<lparr>state = \<lparr>epochs = [(12, 1000)], paused = False\<rparr>,
              pool = [Finished, Finished, Started third_run]\<rparr>) \<and>
   evaluating replay one third_run = Some (Inr (info12 999, gwei 7), []) \<and>
   epochNumber (info12 999) = 12 \<and> delta (info12 999) \<le> 300 \<and> gwei 7 > 0 \<and>
   act replay [] one (Reach 2)
     \<lparr>state = \<lparr>epochs = [(12, 1000)], paused = False\<rparr>,
      pool = [Finished, Finished, Started third_run]\<rparr>
     = Some ([], \<lparr>state = \<lparr>epochs = [(12, 1000)], paused = False\<rparr>,
                  pool = [Finished, Finished, Finished]\<rparr>) \<and>
   tick replay [] one \<lparr>epochs = [(12, 1000)], paused = False\<rparr> third_run
     = Some ([], \<lparr>epochs = [(12, 1000)], paused = False\<rparr>, []) \<and>
   distinct (map fst [(12 :: int, 1000 :: int)]) \<and>
   legacy_interleaved replay replay_staking one
     [Fire (legacy_status @ [Sent ''0xa'', Receipt ''0xa'' 999]), Fire legacy_status,
      Reach 0, Settle 0] start
     = Some ([TimerToggle, TryingToRedeem, RedeemAllTx, RedeemedAndStaked ''0xa'' 999, TimerToggle],
             \<lparr>state = marked12, pool = [Finished, Started legacy_status]\<rparr>) \<and>
   legacy_evaluating replay replay_staking one legacy_status = Some (Inr (12, 2, 5), []) \<and>
   legacy_act replay replay_staking one (Reach 1)
     \<lparr>state = marked12, pool = [Finished, Started legacy_status]\<rparr>
     = Some ([], \<lparr>state = marked12, pool = [Finished, Finished]\<rparr>) \<and>
   legacy_tick replay replay_staking one marked12 legacy_status = Some ([], marked12, [])"
proof -
  have ev: "evaluating replay one third_run = Some (Inr (info12 999, gwei 7), [])"
    unfolding third_run_def by (rule replay_evaluating(3))
  have e: "epochNumber (info12 999) = 12" and still: "delta (info12 999) \<le> 300" "gwei 7 > 0"
    by (simp_all add: info12_fields gwei_positive)
  have lev: "legacy_evaluating replay replay_staking one legacy_status = Some (Inr (12, 2, 5), [])"
    unfolding legacy_status_def by (rule replay_legacy_evaluating(1))
  let ?marked = "\<lparr>state = \<lparr>epochs = [(12, 999)], paused = True\<rparr>,
              pool = [Finished, Redeeming (info12 998) [Payout 5, Receipt ''0xb'' 1000],
                      Started third_run]\<rparr>"
  let ?c = "\<lparr>state = \<lparr>epochs = [(12, 1000)], paused = False\<rparr>,
             pool = [Finished, Finished, Started third_run]\<rparr>"
  let ?d = "\<lparr>state = marked12, pool = [Finished, Started legacy_status]\<rparr>"
  note guard = recorded_epoch_never_retriggered [where r = replay and A = "[]" and bonds = one
      and s = replay_staking and e = 12
      and ?as0.0 = "[Fire first_run, Fire second_run, Fire third_run, Reach 0, Reach 1, Settle 0]"
      and ?evs0.0 = "[TimerToggle, TryingToRedeem, TimerToggle, TryingToRedeem,
              RedeemAllTx, RedeemedAndStaked ''0xa'' 999, TimerToggle]"
      and ?c0.0 = ?marked and as = "[Settle 1]"
      and evs = "[RedeemAllTx, RedeemedAndStaked ''0xb'' 1000, TimerToggle]"
      and c = ?c and i = 2 and w = third_run and info = "info12 999" and pendingValue = "gwei 7"
      and ?w1.0 = "[]"
      and ?bs0.0 = "[Fire (legacy_status @ [Sent ''0xa'', Receipt ''0xa'' 999]), Fire legacy_status,
                    Reach 0, Settle 0]"
      and evs0' = "[TimerToggle, TryingToRedeem, RedeemAllTx, RedeemedAndStaked ''0xa'' 999,
                    TimerToggle]"
      and ?d0.0 = ?d and bs = "[]" and evs' = "[]" and d = ?d and j = 1 and v = legacy_status
      and blocks = 2 and payout = 5 and ?v1.0 = "[]"]
  from guard [THEN conjunct1, THEN mp] replay_overlap replay_overlap_settled ev e
  have main: "act replay [] one (Reach 2)
     \<lparr>state = \<lparr>epochs = [(12, 1000)], paused = False\<rparr>,
      pool = [Finished, Finished, Started third_run]\<rparr>
     = Some ([], \<lparr>state = \<lparr>epochs = [(12, 1000)], paused = False\<rparr>,
                  pool = [Finished, Finished, Finished]\<rparr>) \<and>
   tick replay [] one \<lparr>epochs = [(12, 1000)], paused = False\<rparr> third_run
     = Some ([], \<lparr>epochs = [(12, 1000)], paused = False\<rparr>, []) \<and>
   distinct (map fst [(12 :: int, 1000 :: int)])"
    by simp
  from guard [THEN conjunct2, THEN mp] replay_legacy_overlap lev
  have older: "legacy_act replay replay_staking one (Reach 1)
     \<lparr>state = marked12, pool = [Finished, Started legacy_status]\<rparr>
     = Some ([], \<lparr>state = marked12, pool = [Finished, Finished]\<rparr>) \<and>
   legacy_tick replay replay_staking one marked12 legacy_status = Some ([], marked12, [])"
    by (simp add: marked12_fields)
  from main older replay_overlap replay_overlap_settled replay_legacy_overlap(1) ev e still lev
  show ?thesis by simp
qed

section \<open>The redeem procedure and the epoch guard\<close>

lemma redeemAdditional_events:
  "redeemAdditional r bonds A evs0 receipts0 w = (evs, res, w') \<Longrightarrow>
     \<exists>more. evs = evs0 @ more \<and> RedeemAllTx \<notin> set more"
proof (induction A arbitrary: evs0 receipts0 w)
  case Nil
  then show ?case by simp
next
  case (Cons c A)
  show ?case
  proof (cases "getBond bonds c")
    case None
    with Cons show ?thesis by simp
  next
    case (Some b)
    obtain q w1 where q: "bond_pendingPayoutFor r (contract_address b) w = (q, w1)"
      by (cases "bond_pendingPayoutFor r (contract_address b) w")
    show ?thesis
    proof (cases q)
      case (Inl e)
      with Cons.prems Some q show ?thesis by simp
    next
      case (Inr payout)
      show ?thesis
      proof (cases "payout > 0")
        case False
        with Cons Some q Inr show ?thesis by simp
      next
        case True
        obtain x w2 where x: "bond_redeem r (contract_address b) w1 = (x, w2)"
          by (cases "bond_redeem r (contract_address b) w1")
        show ?thesis
        proof (cases x)
          case (Inl e)
          with Cons.prems Some q \<open>q = Inr payout\<close> True x show ?thesis by auto
        next
          case (Inr receipt)
          with Cons.prems Some q \<open>q = Inr payout\<close> True x
          have "redeemAdditional r bonds A (evs0 @ [RedeemTx (contract_address b)])
                  (receipts0 @ [receipt]) w2 = (evs, res, w')"
            by simp
          from Cons.IH [OF this] show ?thesis by auto
        qed
      qed
    qed
  qed
qed


lemma replay_two_evaluating:
  "evaluating replay two (Info 12 1000 998 # Payout p # Payout q # Balance 1 # w)
     = Some (Inr (info12 998, gwei (p + q)), w)"
  by (simp add: evaluating_def checkBonds_def two_def position_def attemptPayout.simps
      replay_simps secondsToHuman_def info12_fields)


lemma replay_single_rejected:
  "redeemBonds replay two [''b''] [Payout 5, Receipt ''0xa'' 999, Payout 4, Rejects]
     = Some ([RedeemAllTx, RedeemTx ''b''], Inl (Thrown ''rejected''), [])"
  by (simp add: redeemBonds_def checkBonds_def two_def position_def attemptPayout.simps
      replay_simps gwei_def getBond_def)


lemma redeemAdditional_append:
  "redeemAdditional r bonds (earlier @ later) evs receipts w =
     (case redeemAdditional r bonds earlier evs receipts w of
        (evs1, Inl e, w1) \<Rightarrow> (evs1, Inl e, w1)
      | (evs1, Inr receipts1, w1) \<Rightarrow> redeemAdditional r bonds later evs1 receipts1 w1)"
  by (induction earlier arbitrary: evs receipts w)
     (auto split: option.splits prod.splits sum.splits)

lemma redeemAdditional_receipts:
  "redeemAdditional r bonds A evs0 receipts0 w = (evs, Inr receipts, w') \<Longrightarrow>
     set receipts0 \<subseteq> set receipts"
proof (induction A arbitrary: evs0 receipts0 w)
  case Nil
  then show ?case by simp
next
  case (Cons c A)
  show ?case
  proof (cases "getBond bonds c")
    case None
    with Cons show ?thesis by simp
  next
    case (Some b)
    obtain q w1 where q: "bond_pendingPayoutFor r (contract_address b) w = (q, w1)"
      by (cases "bond_pendingPayoutFor r (contract_address b) w")
    show ?thesis
    proof (cases q)
      case (Inl e)
      with Cons.prems Some q show ?thesis by simp
    next
      case (Inr payout)
      show ?thesis
      proof (cases "payout > 0")
        case False
        with Cons Some q Inr show ?thesis by simp
      next
        case True
        obtain x w2 where x: "bond_redeem r (contract_address b) w1 = (x, w2)"
          by (cases "bond_redeem r (contract_address b) w1")
        show ?thesis
        proof (cases x)
          case (Inl e)
          with Cons.prems Some q \<open>q = Inr payout\<close> True x show ?thesis by auto
        next
          case (Inr receipt)
          with Cons.prems Some q \<open>q = Inr payout\<close> True x
          have "redeemAdditional r bonds A (evs0 @ [RedeemTx (contract_address b)])
                  (receipts0 @ [receipt]) w2 = (evs, Inr receipts, w')"
            by simp
          from Cons.IH [OF this] show ?thesis by auto
        qed
      qed
    qed
  qed
qed

text \<open>
  C2, as amended. Let the bulk redeem be confirmed, with its receipt, and let the
  supplemental bonds listed before bond \<open>c\<close> go through. When the payout query
  of \<open>c\<close> rejects, or its payout is positive and its redeem call rejects,
  \<^verbatim>\<open>Tools.redeemBonds\<close> rejects as a whole, after the bulk transaction was issued
  and whatever bonds are listed after \<open>c\<close>. The receipts collected so far, the
  bulk one among them, never reach the handler, which logs the error and leaves
  the state as it was: a tick that entered the step with no entry for the epoch
  ends with no entry for the epoch.
\<close>

theorem partial_failure_discards_receipts:
  assumes "checkBonds r bonds True w = Some (pending, w1)"
    and "pending > 0"
    and "redeemHelper_redeemAll r w1 = (Inr receipt, w2)"
    and "redeemAdditional r bonds earlier [RedeemAllTx] [receipt] w2 = (evs, Inr receipts, w3)"
    and "getBond bonds c = Some b"
  shows "(bond_pendingPayoutFor r (contract_address b) w3 = (Inl e, w4) \<longrightarrow>
            redeemBonds r bonds (earlier @ c # later) w = Some (evs, Inl e, w4) \<and>
            redeem_and_stake r (earlier @ c # later) bonds info st w =
              Some ([TimerToggle, TryingToRedeem] @ evs @ [ErrorRedeeming e, TimerToggle], st, w4) \<and>
            (evaluating r bonds w0 = Some (Inr (info, p), w) \<and> delta info \<le> 300 \<and>
             map_of (epochs st) (epochNumber info) = None \<and> p > 0 \<longrightarrow>
               tick r (earlier @ c # later) bonds st w0 =
                 Some ([TimerToggle, TryingToRedeem] @ evs @ [ErrorRedeeming e, TimerToggle], st, w4) \<and>
               map_of (epochs st) (epochNumber info) = None)) \<and>
         (bond_pendingPayoutFor r (contract_address b) w3 = (Inr payout, w4) \<and> payout > 0 \<and>
          bond_redeem r (contract_address b) w4 = (Inl e, w5) \<longrightarrow>
            redeemBonds r bonds (earlier @ c # later) w =
              Some (evs @ [RedeemTx (contract_address b)], Inl e, w5) \<and>
            redeem_and_stake r (earlier @ c # later) bonds info st w =
              Some ([TimerToggle, TryingToRedeem] @ evs
                      @ [RedeemTx (contract_address b), ErrorRedeeming e, TimerToggle], st, w5) \<and>
            (evaluating r bonds w0 = Some (Inr (info, p), w) \<and> delta info \<le> 300 \<and>
             map_of (epochs st) (epochNumber info) = None \<and> p > 0 \<longrightarrow>
               tick r (earlier @ c # later) bonds st w0 =
                 Some ([TimerToggle, TryingToRedeem] @ evs
                         @ [RedeemTx (contract_address b), ErrorRedeeming e, TimerToggle], st, w5) \<and>
               map_of (epochs st) (epochNumber info) = None)) \<and>
         RedeemAllTx \<in> set evs \<and> receipt \<in> set receipts"
proof -
  have bulk: "redeemBonds r bonds A w = Some (redeemAdditional r bonds A [RedeemAllTx] [receipt] w2)"
    for A
    using assms(1-3) by (simp add: redeemBonds_def)
  have loop: "redeemAdditional r bonds (earlier @ c # later) [RedeemAllTx] [receipt] w2
      = redeemAdditional r bonds (c # later) evs receipts w3"
    using assms(4) by (simp add: redeemAdditional_append)
  have query: "redeemBonds r bonds (earlier @ c # later) w = Some (evs, Inl e, w4)"
    if "bond_pendingPayoutFor r (contract_address b) w3 = (Inl e, w4)"
    using that assms(5) by (simp add: bulk loop)
  have call: "redeemBonds r bonds (earlier @ c # later) w =
              Some (evs @ [RedeemTx (contract_address b)], Inl e, w5)"
    if "bond_pendingPayoutFor r (contract_address b) w3 = (Inr payout, w4) \<and> payout > 0 \<and>
          bond_redeem r (contract_address b) w4 = (Inl e, w5)"
    using that assms(5) by (simp add: bulk loop)
  have step: "redeem_and_stake r A bonds info st w =
      Some ([TimerToggle, TryingToRedeem] @ log @ [ErrorRedeeming e, TimerToggle], st, w')"
    if "redeemBonds r bonds A w = Some (log, Inl e, w')" for A log w'
    using that by (simp add: redeem_and_stake_result)
  have whole: "tick r A bonds st w0 = redeem_and_stake r A bonds info st w"
    if "evaluating r bonds w0 = Some (Inr (info, p), w) \<and> delta info \<le> 300 \<and>
        map_of (epochs st) (epochNumber info) = None \<and> p > 0" for A
    using that tick_evaluated [of r bonds w0 info p w A st] by (simp add: trigger_condition_def)
  have issued: "RedeemAllTx \<in> set evs"
    using redeemAdditional_events [OF assms(4)] by auto
  have kept: "receipt \<in> set receipts"
    using redeemAdditional_receipts [OF assms(4)] by simp
  show ?thesis
    apply (intro conjI impI)
    subgoal using query by blast
    subgoal using step [OF query] by simp
    subgoal using step [OF query] whole [of "earlier @ c # later"] by simp
    subgoal by simp
    subgoal using call by blast
    subgoal using step [OF call] by simp
    subgoal using step [OF call] whole [of "earlier @ c # later"] by simp
    subgoal by simp
    subgoal using issued .
    subgoal using kept .
    done
qed

lemma replay_two_bulk:
  "checkBonds replay two True (Payout p # w) = Some (gwei p, w)"
  by (simp add: checkBonds_def two_def position_def attemptPayout.simps replay_simps)

text \<open>
  The bulk redeem of bond \<open>a\<close> is confirmed in block \<open>999\<close>. Then either the
  payout query of the supplemental bond \<open>b\<close> rejects, or it reports \<open>4\<close> and
  the redeem of \<open>b\<close> rejects; a whole tick with the latter leaves the ledger
  empty.
\<close>

theorem partial_failure_discards_receipts_witness:
  "checkBonds replay two True [Payout 5, Receipt ''0xa'' 999, Rejects]
     = Some (gwei 5, [Receipt ''0xa'' 999, Rejects]) \<and> gwei 5 > 0 \<and>
   redeemHelper_redeemAll replay [Receipt ''0xa'' 999, Rejects]
     = (Inr \<lparr>transactionHash = ''0xa'', blockNumber = 999\<rparr>, [Rejects]) \<and>
   getBond two ''b'' = Some \<lparr>contract_address = ''b''\<rparr> \<and>
   bond_pendingPayoutFor replay ''b'' [Rejects] = (Inl (Thrown ''rejected''), []) \<and>
   redeemBonds replay two [''b''] [Payout 5, Receipt ''0xa'' 999, Rejects]
     = Some ([RedeemAllTx], Inl (Thrown ''rejected''), []) \<and>
   redeem_and_stake replay [''b''] two (info12 998) initial [Payout 5, Receipt ''0xa'' 999, Rejects]
     = Some ([TimerToggle, TryingToRedeem, RedeemAllTx, ErrorRedeeming (Thrown ''rejected''),
              TimerToggle], initial, []) \<and>
   bond_pendingPayoutFor replay ''b'' [Payout 4, Rejects] = (Inr 4, [Rejects]) \<and>
   bond_redeem replay ''b'' [Rejects] = (Inl (Thrown ''rejected''), []) \<and>
   redeemBonds replay two [''b''] [Payout 5, Receipt ''0xa'' 999, Payout 4, Rejects]
     = Some ([RedeemAllTx, RedeemTx ''b''], Inl (Thrown ''rejected''), []) \<and>
   redeem_and_stake replay [''b''] two (info12 998) initial
       [Payout 5, Receipt ''0xa'' 999, Payout 4, Rejects]
     = Some ([TimerToggle, TryingToRedeem, RedeemAllTx, RedeemTx ''b'',
              ErrorRedeeming (Thrown ''rejected''), TimerToggle], initial, []) \<and>
   evaluating replay two
       [Info 12 1000 998, Payout 5, Payout 4, Balance 1, Payout 5, Receipt ''0xa'' 999, Payout 4, Rejects]
     = Some (Inr (info12 998, gwei 9), [Payout 5, Receipt ''0xa'' 999, Payout 4, Rejects]) \<and>
   tick replay [''b''] two initial
       [Info 12 1000 998, Payout 5, Payout 4, Balance 1, Payout 5, Receipt ''0xa'' 999, Payout 4, Rejects]
     = Some ([TimerToggle, TryingToRedeem, RedeemAllTx, RedeemTx ''b'',
              ErrorRedeeming (Thrown ''rejected''), TimerToggle], initial, []) \<and>
   map_of (epochs initial) (epochNumber (info12 998)) = None"
proof -
  have p: "gwei 5 > 0" "gwei 9 > 0" by (simp_all add: gwei_positive)
  have b: "getBond two ''b'' = Some \<lparr>contract_address = ''b''\<rparr>"
    by (simp add: getBond_def two_def position_def)
  have none: "redeemAdditional replay two [] [RedeemAllTx] [x] s = ([RedeemAllTx], Inr [x], s)"
    for x s
    by simp
  have c: "delta (info12 998) \<le> 300" "map_of (epochs initial) (epochNumber (info12 998)) = None"
    by (simp_all add: info12_fields initial_fields)
  have ev: "evaluating replay two
       [Info 12 1000 998, Payout 5, Payout 4, Balance 1, Payout 5, Receipt ''0xa'' 999, Payout 4, Rejects]
     = Some (Inr (info12 998, gwei 9), [Payout 5, Receipt ''0xa'' 999, Payout 4, Rejects])"
    using replay_two_evaluating [of 5 4] by simp
  note query = partial_failure_discards_receipts [where later = "[]" and info = "info12 998"
        and st = initial and e = "Thrown ''rejected''" and ?w4.0 = "[]",
      OF replay_two_bulk [of 5 "[Receipt ''0xa'' 999, Rejects]"] p(1)
        replay_redeemAll(1) [of "''0xa''" 999 "[Rejects]"] none b,
      THEN conjunct1, THEN mp]
  have "bond_pendingPayoutFor replay (contract_address \<lparr>contract_address = ''b''\<rparr>) [Rejects]
      = (Inl (Thrown ''rejected''), [])"
    by (simp add: replay_simps)
  note query = query [OF this]
  note call = partial_failure_discards_receipts [where later = "[]" and info = "info12 998"
        and st = initial and e = "Thrown ''rejected''"
        and payout = 4 and ?w4.0 = "[Rejects]" and ?w5.0 = "[]" and p = "gwei 9"
        and ?w0.0 = "[Info 12 1000 998, Payout 5, Payout 4, Balance 1, Payout 5,
                     Receipt ''0xa'' 999, Payout 4, Rejects]",
      OF replay_two_bulk [of 5 "[Receipt ''0xa'' 999, Payout 4, Rejects]"] p(1)
        replay_redeemAll(1) [of "''0xa''" 999 "[Payout 4, Rejects]"] none b,
      THEN conjunct2, THEN conjunct1, THEN mp]
  have "bond_pendingPayoutFor replay (contract_address \<lparr>contract_address = ''b''\<rparr>) [Payout 4, Rejects]
      = (Inr 4, [Rejects]) \<and> (4 :: int) > 0 \<and>
     bond_redeem replay (contract_address \<lparr>contract_address = ''b''\<rparr>) [Rejects]
      = (Inl (Thrown ''rejected''), [])"
    by (simp add: replay_simps)
  note call = call [OF this]
  from query call ev c p replay_two_bulk [of 5] replay_redeemAll(1) b
    replay_pendingPayoutFor [of "''b''"] replay_redeem(2) [of "''b''" "[]"]
  show ?thesis by simp
qed

text \<open>
  The claim as stated fails: a whole tick of that scenario, started with an empty
  ledger, ends with an empty ledger, although the bulk redeem produced a receipt.
\<close>

theorem partial_failure_counterexample:
  "redeemHelper_redeemAll replay [Receipt ''0xa'' 999, Payout 4, Rejects]
     = (Inr \<lparr>transactionHash = ''0xa'', blockNumber = 999\<rparr>, [Payout 4, Rejects]) \<and>
   bond_redeem replay ''b'' [Rejects] = (Inl (Thrown ''rejected''), []) \<and>
   tick replay [''b''] two initial
       [Info 12 1000 998, Payout 5, Payout 4, Balance 1, Payout 5, Receipt ''0xa'' 999, Payout 4, Rejects]
     = Some ([TimerToggle, TryingToRedeem, RedeemAllTx, RedeemTx ''b'',
              ErrorRedeeming (Thrown ''rejected''), TimerToggle],
             \<lparr>epochs = [], paused = False\<rparr>, []) \<and>
   map_of (epochs \<lparr>epochs = [], paused = False\<rparr>) 12 = None"
  by (simp add: tick_def replay_two_evaluating info12_fields initial_def gwei_positive
      redeem_and_stake_result replay_single_rejected replay_simps)

text \<open>
  C6. Let the pending value of the bulk-eligible positions be \<open>pending\<close>. When it
  is zero, no bulk call is issued, whatever the supplemental list; and with one
  supplemental position that has a positive pending value, the individual redeem
  is the only call and its receipt the only one returned. When it is positive and
  the bulk call is confirmed, the individual call follows and both receipts are
  returned, the bulk one first.
\<close>

theorem redeemBonds_paths:
  assumes "checkBonds r bonds True w = Some (pending, w1)"
  shows "(pending \<le> 0 \<longrightarrow>
            (\<forall>evs res w'. redeemBonds r bonds A w = Some (evs, res, w') \<longrightarrow> RedeemAllTx \<notin> set evs)) \<and>
         (pending \<le> 0 \<and> getBond bonds c = Some b \<and>
          bond_pendingPayoutFor r (contract_address b) w1 = (Inr payout, w2) \<and> payout > 0 \<and>
          bond_redeem r (contract_address b) w2 = (Inr single, w3) \<longrightarrow>
            redeemBonds r bonds [c] w = Some ([RedeemTx (contract_address b)], Inr [single], w3)) \<and>
         (pending > 0 \<and> redeemHelper_redeemAll r w1 = (Inr bulk, wa) \<and> getBond bonds c = Some b \<and>
          bond_pendingPayoutFor r (contract_address b) wa = (Inr payout, wb) \<and> payout > 0 \<and>
          bond_redeem r (contract_address b) wb = (Inr single, wc) \<longrightarrow>
            redeemBonds r bonds [c] w =
              Some ([RedeemAllTx, RedeemTx (contract_address b)], Inr [bulk, single], wc))"
proof (intro conjI impI allI)
  fix evs res w'
  assume "pending \<le> 0" and rb: "redeemBonds r bonds A w = Some (evs, res, w')"
  then have "redeemAdditional r bonds A [] [] w1 = (evs, res, w')"
    using assms by (simp add: redeemBonds_def)
  from redeemAdditional_events [OF this] show "RedeemAllTx \<notin> set evs" by simp
next
  assume "pending \<le> 0 \<and> getBond bonds c = Some b \<and>
          bond_pendingPayoutFor r (contract_address b) w1 = (Inr payout, w2) \<and> payout > 0 \<and>
          bond_redeem r (contract_address b) w2 = (Inr single, w3)"
  then show "redeemBonds r bonds [c] w = Some ([RedeemTx (contract_address b)], Inr [single], w3)"
    using assms by (simp add: redeemBonds_def)
next
  assume "pending > 0 \<and> redeemHelper_redeemAll r w1 = (Inr bulk, wa) \<and> getBond bonds c = Some b \<and>
          bond_pendingPayoutFor r (contract_address b) wa = (Inr payout, wb) \<and> payout > 0 \<and>
          bond_redeem r (contract_address b) wb = (Inr single, wc)"
  then show "redeemBonds r bonds [c] w =
      Some ([RedeemAllTx, RedeemTx (contract_address b)], Inr [bulk, single], wc)"
    using assms by (simp add: redeemBonds_def)
qed

lemma replay_getBond_b: "getBond two ''b'' = Some \<lparr>contract_address = ''b''\<rparr>"
  by (simp add: getBond_def two_def position_def)

text \<open>
  Bond \<open>a\<close> is bulk-eligible, bond \<open>b\<close> supplemental: first with nothing pending
  on \<open>a\<close>, then with a pending value on both.
\<close>

theorem redeemBonds_paths_witness:
  "checkBonds replay two True [Payout 0, Payout 4, Receipt ''0xb'' 1002]
     = Some (gwei 0, [Payout 4, Receipt ''0xb'' 1002]) \<and> gwei 0 \<le> 0 \<and>
   getBond two ''b'' = Some \<lparr>contract_address = ''b''\<rparr> \<and>
   redeemBonds replay two [''b''] [Payout 0, Payout 4, Receipt ''0xb'' 1002]
     = Some ([RedeemTx ''b''], Inr [\<lparr>transactionHash = ''0xb'', blockNumber = 1002\<rparr>], []) \<and>
   RedeemAllTx \<notin> set [RedeemTx ''b''] \<and>
   checkBonds replay two True [Payout 5, Receipt ''0xa'' 999, Payout 4, Receipt ''0xb'' 1003]
     = Some (gwei 5, [Receipt ''0xa'' 999, Payout 4, Receipt ''0xb'' 1003]) \<and> gwei 5 > 0 \<and>
   redeemBonds replay two [''b''] [Payout 5, Receipt ''0xa'' 999, Payout 4, Receipt ''0xb'' 1003]
     = Some ([RedeemAllTx, RedeemTx ''b''],
             Inr [\<lparr>transactionHash = ''0xa'', blockNumber = 999\<rparr>,
                  \<lparr>transactionHash = ''0xb'', blockNumber = 1003\<rparr>], [])"
proof -
  have z: "gwei 0 \<le> 0" and p: "gwei 5 > 0" by (simp_all add: gwei_def)
  have four: "(4::int) > 0" by simp
  have first: "redeemBonds replay two [''b''] [Payout 0, Payout 4, Receipt ''0xb'' 1002]
     = Some ([RedeemTx ''b''], Inr [\<lparr>transactionHash = ''0xb'', blockNumber = 1002\<rparr>], [])"
    using redeemBonds_paths [OF replay_two_bulk, where c = "''b''" and b = "\<lparr>contract_address = ''b''\<rparr>"
        and p1 = 0 and payout = 4 and ?w2.0 = "[Receipt ''0xb'' 1002]" and ?w3.0 = "[]"
        and single = "\<lparr>transactionHash = ''0xb'', blockNumber = 1002\<rparr>"]
      z replay_getBond_b replay_pendingPayoutFor(1) replay_redeem(1) four
    by simp
  have none: "RedeemAllTx \<notin> set [RedeemTx ''b'']"
    using redeemBonds_paths [OF replay_two_bulk, where A = "[''b'']" and p1 = 0] z first by blast
  have both: "redeemBonds replay two [''b''] [Payout 5, Receipt ''0xa'' 999, Payout 4, Receipt ''0xb'' 1003]
     = Some ([RedeemAllTx, RedeemTx ''b''],
             Inr [\<lparr>transactionHash = ''0xa'', blockNumber = 999\<rparr>,
                  \<lparr>transactionHash = ''0xb'', blockNumber = 1003\<rparr>], [])"
    using redeemBonds_paths [OF replay_two_bulk, where c = "''b''" and b = "\<lparr>contract_address = ''b''\<rparr>"
        and p1 = 5 and payout = 4 and wa = "[Payout 4, Receipt ''0xb'' 1003]"
        and wb = "[Receipt ''0xb'' 1003]" and wc = "[]"
        and bulk = "\<lparr>transactionHash = ''0xa'', blockNumber = 999\<rparr>"
        and single = "\<lparr>transactionHash = ''0xb'', blockNumber = 1003\<rparr>"]
      p replay_getBond_b replay_pendingPayoutFor(1) replay_redeem(1) replay_redeemAll(1) four
    by simp
  from first none both z p replay_two_bulk replay_getBond_b show ?thesis by simp
qed


lemma redeemAdditional_unregistered:
  "\<forall>c \<in> set A. getBond bonds c = None \<Longrightarrow>
     redeemAdditional r bonds A evs receipts w = (evs, Inr receipts, w)"
  by (induction A) simp_all

text \<open>
  C10. When \<^verbatim>\<open>Tools.redeemBonds\<close> returns an empty list of receipts, the step ends
  with the state it started from, so no entry is written for the epoch; a later
  tick that finds the same epoch in the window with a pending value enters the
  step again. The list is empty when the bulk-eligible pending value is not
  positive and every supplemental address is missing from the registry or reports
  no pending value. Conversely, a tick adds an entry for an epoch number only when
  that epoch is current and \<^verbatim>\<open>Tools.redeemBonds\<close> returned at least one receipt;
  the entry is the block number of the last one.
\<close>

theorem empty_receipts_leave_epoch_unmarked:
  "(redeemBonds r bonds A w1 = Some (evs, Inr [], w2) \<longrightarrow>
      redeem_and_stake r A bonds info st w1 =
        Some ([TimerToggle, TryingToRedeem] @ evs @ [TimerToggle], st, w2)) \<and>
   (redeemBonds r bonds A w1 = Some (evs, Inr [], w2) \<and>
    evaluating r bonds w = Some (Inr (info, p), w1) \<and>
    delta info \<le> 300 \<and> map_of (epochs st) (epochNumber info) = None \<and> p > 0 \<longrightarrow>
      tick r A bonds st w = Some ([TimerToggle, TryingToRedeem] @ evs @ [TimerToggle], st, w2) \<and>
      (\<forall>v info' p' v1.
         evaluating r bonds v = Some (Inr (info', p'), v1) \<and>
         epochNumber info' = epochNumber info \<and> delta info' \<le> 300 \<and> p' > 0 \<longrightarrow>
         tick r A bonds st v = redeem_and_stake r A bonds info' st v1)) \<and>
   (checkBonds r bonds True w1 = Some (pending, wa) \<and> pending \<le> 0 \<and>
    (\<forall>c \<in> set A. getBond bonds c = None) \<longrightarrow>
      redeemBonds r bonds A w1 = Some ([], Inr [], wa)) \<and>
   (checkBonds r bonds True w1 = Some (pending, wa) \<and> pending \<le> 0 \<and> getBond bonds c = Some b \<and>
    bond_pendingPayoutFor r (contract_address b) wa = (Inr payout, wb) \<and> payout \<le> 0 \<longrightarrow>
      redeemBonds r bonds [c] w1 = Some ([], Inr [], wb)) \<and>
   (tick r A bonds st0 w0 = Some (evs0, st', w') \<and>
    map_of (epochs st0) e = None \<and> map_of (epochs st') e = Some blk \<longrightarrow>
      (\<exists>info0 p0 v0 evs1 receipts v1.
         evaluating r bonds w0 = Some (Inr (info0, p0), v0) \<and> epochNumber info0 = e \<and>
         redeemBonds r bonds A v0 = Some (evs1, Inr receipts, v1) \<and>
         receipts \<noteq> [] \<and> blk = blockNumber (last receipts)))"
proof (intro conjI impI)
  assume "redeemBonds r bonds A w1 = Some (evs, Inr [], w2)"
  then show "redeem_and_stake r A bonds info st w1 =
      Some ([TimerToggle, TryingToRedeem] @ evs @ [TimerToggle], st, w2)"
    by (simp add: redeem_and_stake_result)
next
  assume a: "redeemBonds r bonds A w1 = Some (evs, Inr [], w2) \<and>
    evaluating r bonds w = Some (Inr (info, p), w1) \<and>
    delta info \<le> 300 \<and> map_of (epochs st) (epochNumber info) = None \<and> p > 0"
  then have "trigger_condition st info p" by (simp add: trigger_condition_def)
  with a tick_evaluated [of r bonds w info p w1 A st]
  show "tick r A bonds st w = Some ([TimerToggle, TryingToRedeem] @ evs @ [TimerToggle], st, w2)"
    by (simp add: redeem_and_stake_result)
  show "\<forall>v info' p' v1.
         evaluating r bonds v = Some (Inr (info', p'), v1) \<and>
         epochNumber info' = epochNumber info \<and> delta info' \<le> 300 \<and> p' > 0 \<longrightarrow>
         tick r A bonds st v = redeem_and_stake r A bonds info' st v1"
  proof (intro allI impI)
    fix v info' p' v1
    assume b: "evaluating r bonds v = Some (Inr (info', p'), v1) \<and>
         epochNumber info' = epochNumber info \<and> delta info' \<le> 300 \<and> p' > 0"
    with a have "trigger_condition st info' p'" by (simp add: trigger_condition_def)
    with b tick_evaluated [of r bonds v info' p' v1 A st]
    show "tick r A bonds st v = redeem_and_stake r A bonds info' st v1" by simp
  qed
next
  assume "checkBonds r bonds True w1 = Some (pending, wa) \<and> pending \<le> 0 \<and>
    (\<forall>c \<in> set A. getBond bonds c = None)"
  then show "redeemBonds r bonds A w1 = Some ([], Inr [], wa)"
    by (simp add: redeemBonds_def redeemAdditional_unregistered)
next
  assume "checkBonds r bonds True w1 = Some (pending, wa) \<and> pending \<le> 0 \<and> getBond bonds c = Some b \<and>
    bond_pendingPayoutFor r (contract_address b) wa = (Inr payout, wb) \<and> payout \<le> 0"
  then show "redeemBonds r bonds [c] w1 = Some ([], Inr [], wb)"
    by (simp add: redeemBonds_def)
next
  assume a: "tick r A bonds st0 w0 = Some (evs0, st', w') \<and>
    map_of (epochs st0) e = None \<and> map_of (epochs st') e = Some blk"
  then have "epochs st' \<noteq> epochs st0" by auto
  with a tick_ledger [of r A bonds st0 w0 evs0 st' w']
  obtain info0 p0 v0 evs1 receipts v1
    where ev: "evaluating r bonds w0 = Some (Inr (info0, p0), v0)"
      and rb: "redeemBonds r bonds A v0 = Some (evs1, Inr receipts, v1)"
      and ep: "epochs st' = record_receipts (epochNumber info0) receipts (epochs st0)"
    by blast
  from a ep have "receipts \<noteq> [] \<and> e = epochNumber info0 \<and> blk = blockNumber (last receipts)"
    by (auto simp: map_of_record_receipts split: if_splits)
  with ev rb
  show "\<exists>info0 p0 v0 evs1 receipts v1.
         evaluating r bonds w0 = Some (Inr (info0, p0), v0) \<and> epochNumber info0 = e \<and>
         redeemBonds r bonds A v0 = Some (evs1, Inr receipts, v1) \<and>
         receipts \<noteq> [] \<and> blk = blockNumber (last receipts)"
    by blast
qed


lemma replay_one_bulk:
  "checkBonds replay one True (Payout p # w) = Some (gwei p, w)"
  by (simp add: checkBonds_def one_def position_def attemptPayout.simps replay_simps)

lemma replay_nothing_left:
  "redeemBonds replay one [] [Payout 0] = Some ([], Inr [], [])"
  by (simp add: redeemBonds_def replay_one_bulk gwei_def)

text \<open>
  The pending value seen by the trigger test is gone when \<^verbatim>\<open>Tools.redeemBonds\<close>
  asks again: the tick toggles twice and changes nothing, and the next tick of
  epoch \<open>12\<close> enters the step once more.
\<close>

theorem empty_receipts_leave_epoch_unmarked_witness:
  "redeemBonds replay one [] [Payout 0] = Some ([], Inr [], []) \<and>
   evaluating replay one [Info 12 1000 998, Payout 5, Balance 1, Payout 0]
     = Some (Inr (info12 998, gwei 5), [Payout 0]) \<and>
   delta (info12 998) \<le> 300 \<and> map_of (epochs initial) (epochNumber (info12 998)) = None \<and> gwei 5 > 0 \<and>
   tick replay [] one initial [Info 12 1000 998, Payout 5, Balance 1, Payout 0]
     = Some ([TimerToggle, TryingToRedeem, TimerToggle], initial, []) \<and>
   tick replay [] one initial [Info 12 1000 998, Payout 5, Balance 1, Payout 5, Receipt ''0xa'' 999]
     = redeem_and_stake replay [] one (info12 998) initial [Payout 5, Receipt ''0xa'' 999] \<and>
   checkBonds replay two True [Payout 0, Payout 0] = Some (gwei 0, [Payout 0]) \<and> gwei 0 \<le> 0 \<and>
   redeemBonds replay two [] [Payout 0, Payout 0] = Some ([], Inr [], [Payout 0]) \<and>
   getBond two ''b'' = Some \<lparr>contract_address = ''b''\<rparr> \<and>
   redeemBonds replay two [''b''] [Payout 0, Payout 0] = Some ([], Inr [], []) \<and>
   map_of (epochs initial) 12 = None \<and> map_of (epochs marked12) 12 = Some 999 \<and>
   (\<exists>info0 p0 v0 evs1 receipts v1.
      evaluating replay one [Info 12 1000 998, Payout 5, Balance 1, Payout 5, Receipt ''0xa'' 999]
        = Some (Inr (info0, p0), v0) \<and> epochNumber info0 = 12 \<and>
      redeemBonds replay one [] v0 = Some (evs1, Inr receipts, v1) \<and>
      receipts \<noteq> [] \<and> 999 = blockNumber (last receipts))"
proof -
  note unmarked = empty_receipts_leave_epoch_unmarked
  have c: "delta (info12 998) \<le> 300" "map_of (epochs initial) (epochNumber (info12 998)) = None"
    "gwei 5 > 0" "gwei 0 \<le> 0" "map_of (epochs initial) 12 = None"
    "map_of (epochs marked12) 12 = Some 999"
    by (simp_all add: info12_fields initial_fields marked12_fields gwei_def)
  have ev: "evaluating replay one (Info 12 1000 998 # Payout 5 # Balance 1 # s)
     = Some (Inr (info12 998, gwei 5), s)" for s
    by (rule replay_evaluating(1))
  have both: "tick replay [] one initial [Info 12 1000 998, Payout 5, Balance 1, Payout 0]
     = Some ([TimerToggle, TryingToRedeem] @ [] @ [TimerToggle], initial, []) \<and>
     (\<forall>v info' p' v1.
         evaluating replay one v = Some (Inr (info', p'), v1) \<and>
         epochNumber info' = epochNumber (info12 998) \<and> delta info' \<le> 300 \<and> p' > 0 \<longrightarrow>
         tick replay [] one initial v = redeem_and_stake replay [] one info' initial v1)"
    using unmarked [where r = replay and bonds = one and A = "[]" and ?w1.0 = "[Payout 0]"
        and evs = "[]" and ?w2.0 = "[]" and info = "info12 998" and st = initial and p = "gwei 5"
        and w = "[Info 12 1000 998, Payout 5, Balance 1, Payout 0]", THEN conjunct2, THEN conjunct1]
      replay_nothing_left ev c by blast
  then have idle: "tick replay [] one initial [Info 12 1000 998, Payout 5, Balance 1, Payout 0]
     = Some ([TimerToggle, TryingToRedeem, TimerToggle], initial, [])"
    by simp
  note again = both [THEN conjunct2, rule_format]
  have fires: "tick replay [] one initial
       [Info 12 1000 998, Payout 5, Balance 1, Payout 5, Receipt ''0xa'' 999]
     = redeem_and_stake replay [] one (info12 998) initial [Payout 5, Receipt ''0xa'' 999]"
    using again [of "[Info 12 1000 998, Payout 5, Balance 1, Payout 5, Receipt ''0xa'' 999]"
        "info12 998" "gwei 5" "[Payout 5, Receipt ''0xa'' 999]"] ev c by simp
  have unregistered: "redeemBonds replay two [] [Payout 0, Payout 0] = Some ([], Inr [], [Payout 0])"
    using unmarked [where r = replay and bonds = two and A = "[]" and ?w1.0 = "[Payout 0, Payout 0]"
        and pending = "gwei 0" and wa = "[Payout 0]"]
      replay_two_bulk [of 0 "[Payout 0]"] c by simp
  have b_idle: "redeemBonds replay two [''b''] [Payout 0, Payout 0] = Some ([], Inr [], [])"
    using unmarked [where r = replay and bonds = two and ?w1.0 = "[Payout 0, Payout 0]"
        and pending = "gwei 0" and wa = "[Payout 0]" and c = "''b''"
        and b = "\<lparr>contract_address = ''b''\<rparr>" and payout = 0 and wb = "[]"]
      replay_two_bulk [of 0 "[Payout 0]"] c replay_getBond_b replay_pendingPayoutFor(1) by simp
  have only: "\<exists>info0 p0 v0 evs1 receipts v1.
      evaluating replay one [Info 12 1000 998, Payout 5, Balance 1, Payout 5, Receipt ''0xa'' 999]
        = Some (Inr (info0, p0), v0) \<and> epochNumber info0 = 12 \<and>
      redeemBonds replay one [] v0 = Some (evs1, Inr receipts, v1) \<and>
      receipts \<noteq> [] \<and> 999 = blockNumber (last receipts)"
    by (rule unmarked [where r = replay and bonds = one and A = "[]" and ?st0.0 = initial
          and st' = marked12 and w' = "[]" and e = 12 and blk = 999
          and ?w0.0 = "[Info 12 1000 998, Payout 5, Balance 1, Payout 5, Receipt ''0xa'' 999]"
          and ?evs0.0 = "[TimerToggle, TryingToRedeem, RedeemAllTx, RedeemedAndStaked ''0xa'' 999,
                         TimerToggle]",
          THEN conjunct2, THEN conjunct2, THEN conjunct2, THEN conjunct2, THEN mp])
       (simp add: replay_first_tick c)
  from idle fires unregistered b_idle only c replay_nothing_left replay_getBond_b
    ev [of "[Payout 0]"] replay_two_bulk [of 0 "[Payout 0]"]
  show ?thesis by blast
qed

lemma eligible_all: "eligible False bonds = map snd bonds"
  by (induction bonds) (auto simp: eligible_def)

lemma eligible_no_supplemental:
  "\<forall>(k, el) \<in> set bonds. redeemHelper el \<Longrightarrow> eligible True bonds = eligible False bonds"
  by (induction bonds) (auto simp: eligible_def)

lemma checkBonds_pendingValues:
  "checkBonds r bonds ig w =
     (case pendingValues r (eligible ig bonds) w of
        None \<Rightarrow> None
      | Some (ps, w') \<Rightarrow> Some (gwei (sum_list ps), w'))"
  by (simp add: checkBonds_def checkBonds_loop_pendingValues split: option.splits)

text \<open>
  C4, as amended. The pending value the trigger test looks at is
  \<^verbatim>\<open>Tools.checkBonds(bonds, myStakingWallet)\<close> with \<^verbatim>\<open>ignoreAdditional\<close> left at
  \<^verbatim>\<open>false\<close>: the scaled sum of the pending values of all registered positions,
  supplemental ones included. It agrees with the bulk-only aggregate when the
  registry has no supplemental position, as with the shipped empty
  \<^verbatim>\<open>ADDITIONAL_BONDS\<close>.
\<close>

theorem trigger_value_counts_all_positions:
  "(evaluating r bonds w = Some (Inr (info, p), w3) \<longrightarrow>
      (\<exists>w1 w2 ps. getLoopData r w = Some (info, w1) \<and>
         checkBonds r bonds False w1 = Some (p, w2) \<and>
         pendingValues r (map snd bonds) w1 = Some (ps, w2) \<and> p = gwei (sum_list ps))) \<and>
   ((\<forall>(k, el) \<in> set bonds. redeemHelper el) \<longrightarrow>
      checkBonds r bonds True w = checkBonds r bonds False w)"
proof (intro conjI impI)
  assume "evaluating r bonds w = Some (Inr (info, p), w3)"
  then obtain w1 w2 where l: "getLoopData r w = Some (info, w1)"
    and c: "checkBonds r bonds False w1 = Some (p, w2)"
    by (auto simp: evaluating_def split: option.splits prod.splits sum.splits)
  from c obtain ps where "pendingValues r (map snd bonds) w1 = Some (ps, w2)" "p = gwei (sum_list ps)"
    by (auto simp: checkBonds_pendingValues eligible_all split: option.splits)
  with l c show "\<exists>w1 w2 ps. getLoopData r w = Some (info, w1) \<and>
         checkBonds r bonds False w1 = Some (p, w2) \<and>
         pendingValues r (map snd bonds) w1 = Some (ps, w2) \<and> p = gwei (sum_list ps)"
    by blast
next
  assume "\<forall>(k, el) \<in> set bonds. redeemHelper el"
  then show "checkBonds r bonds True w = checkBonds r bonds False w"
    by (simp add: checkBonds_pendingValues eligible_no_supplemental)
qed

text \<open>
  A registry with the supplemental bond \<open>b\<close>, and one with bulk-eligible bonds only.
\<close>

theorem trigger_value_counts_all_positions_witness:
  "evaluating replay two [Info 12 1000 998, Payout 0, Payout 4, Balance 1]
     = Some (Inr (info12 998, gwei 4), []) \<and>
   (\<exists>w1 w2 ps. getLoopData replay [Info 12 1000 998, Payout 0, Payout 4, Balance 1] = Some (info12 998, w1) \<and>
      checkBonds replay two False w1 = Some (gwei 4, w2) \<and>
      pendingValues replay (map snd two) w1 = Some (ps, w2) \<and> gwei 4 = gwei (sum_list ps)) \<and>
   redeemHelper (snd (position ''a'' True)) \<and>
   checkBonds replay one True [Payout 5] = checkBonds replay one False [Payout 5]"
proof -
  have ev: "evaluating replay two [Info 12 1000 998, Payout 0, Payout 4, Balance 1]
     = Some (Inr (info12 998, gwei 4), [])"
    using replay_two_evaluating [of 0 4 "[]"] by simp
  have bulk: "\<forall>(k, el) \<in> set one. redeemHelper el" "redeemHelper (snd (position ''a'' True))"
    by (simp_all add: one_def position_def)
  from trigger_value_counts_all_positions [where r = replay and bonds = two and info = "info12 998"
      and p = "gwei 4" and ?w3.0 = "[]" and w = "[Info 12 1000 998, Payout 0, Payout 4, Balance 1]"]
    trigger_value_counts_all_positions [where r = replay and bonds = one and w = "[Payout 5]"]
    ev bulk
  show ?thesis by blast
qed

text \<open>
  The claim as stated fails: nothing is pending on the bulk-eligible bond \<open>a\<close>, so
  the aggregate over bulk-eligible positions is zero, yet the value tested is the
  pending value of the supplemental bond \<open>b\<close> and the tick redeems.
\<close>

theorem trigger_value_counterexample:
  "evaluating replay two [Info 12 1000 998, Payout 0, Payout 4, Balance 1, Payout 0, Payout 4, Receipt ''0xb'' 1002]
     = Some (Inr (info12 998, gwei 4), [Payout 0, Payout 4, Receipt ''0xb'' 1002]) \<and>
   gwei 4 > 0 \<and>
   checkBonds replay two True [Payout 0, Payout 4, Balance 1] = Some (0, [Payout 4, Balance 1]) \<and>
   tick replay [''b''] two initial
       [Info 12 1000 998, Payout 0, Payout 4, Balance 1, Payout 0, Payout 4, Receipt ''0xb'' 1002]
     = Some ([TimerToggle, TryingToRedeem, RedeemTx ''b'', RedeemedAndStaked ''0xb'' 1002, TimerToggle],
             \<lparr>epochs = [(12, 1002)], paused = False\<rparr>, [])"
proof -
  have ev: "evaluating replay two (Info 12 1000 998 # Payout 0 # Payout 4 # Balance 1 # s)
     = Some (Inr (info12 998, gwei 4), s)" for s
    using replay_two_evaluating [of 0 4 s] by simp
  have rb: "redeemBonds replay two [''b''] [Payout 0, Payout 4, Receipt ''0xb'' 1002]
     = Some ([RedeemTx ''b''], Inr [\<lparr>transactionHash = ''0xb'', blockNumber = 1002\<rparr>], [])"
    by (simp add: redeemBonds_def replay_two_bulk gwei_def replay_getBond_b replay_simps)
  have "tick replay [''b''] two initial
       [Info 12 1000 998, Payout 0, Payout 4, Balance 1, Payout 0, Payout 4, Receipt ''0xb'' 1002]
     = Some ([TimerToggle, TryingToRedeem, RedeemTx ''b'', RedeemedAndStaked ''0xb'' 1002, TimerToggle],
             \<lparr>epochs = [(12, 1002)], paused = False\<rparr>, [])"
    using tick_evaluated [OF ev, where A = "[''b'']" and st = initial] rb
    by (simp add: trigger_condition_def info12_fields initial_fields gwei_positive
        redeem_and_stake_result initial_def)
  with ev replay_two_bulk [of 0 "[Payout 4, Balance 1]"] show ?thesis
    by (simp add: gwei_def)
qed

section \<open>Discovery and labels\<close>

lemma attemptLoad_name:
  assumes "attemptLoad r A a w = Some y"
  shows "\<exists>s t wa wb wc wd.
       helper_symbol r a wa = (Inr s, wb) \<and>
       bond_terms r (contract_address (bond (fst y))) wc = (Inr t, wd) \<and>
       name (fst y) = bond_name s (vestingTerm t)"
proof -
  define P where "P = (\<lambda>(r :: 'a remote) a (y :: elem \<times> 'a). \<exists>s t wa wb wc wd.
       helper_symbol r a wa = (Inr s, wb) \<and>
       bond_terms r (contract_address (bond (fst y))) wc = (Inr t, wd) \<and>
       name (fst y) = bond_name s (vestingTerm t))"
  have base: "P r a (\<lparr>name = bond_name s (vestingTerm t), bond = b, redeemHelper = h\<rparr>, w4)"
    if "helper_symbol r a w2 = (Inr s, w3)" "bond_terms r (contract_address b) w3 = (Inr t, w4)"
    for r :: "'a remote" and a s t b h w2 w3 w4
    unfolding P_def using that by fastforce
  have "P r a y"
  proof (rule attemptLoad.raw_induct [where P = "\<lambda>r A a w y. P r a y", OF _ assms])
    fix attempt and r :: "'a remote" and A a w y
    assume IH: "\<And>r A a w y. attempt r A a w = Some y \<Longrightarrow> P r a y"
      and body: "(case scanner_load_contract r a w of
        (Inl e, w1) \<Rightarrow> attempt r A a w1
      | (Inr b, w1) \<Rightarrow>
     (case bond_connectWallet r (contract_address b) w1 of
        (Inl e, w2) \<Rightarrow> attempt r A a w2
      | (Inr u, w2) \<Rightarrow>
     (case helper_symbol r a w2 of
        (Inl e, w3) \<Rightarrow> attempt r A a w3
      | (Inr s, w3) \<Rightarrow>
     (case bond_terms r (contract_address b) w3 of
        (Inl e, w4) \<Rightarrow> attempt r A a w4
      | (Inr t, w4) \<Rightarrow>
     (case toNumber (vestingTerm t) of
        None \<Rightarrow> attempt r A a w4
      | Some n \<Rightarrow>
          Some (\<lparr>name = bond_name s n, bond = b,
                  redeemHelper = (contract_address b \<notin> set A)\<rparr>, w4)))))) = Some y"
    from body show "P r a y"
      by (auto simp: toNumber_def split: prod.splits sum.splits option.splits if_splits
          intro: IH base)
  qed
  then show ?thesis by (simp add: P_def)
qed

lemma set_update_cases:
  "(k', v') \<in> set (AList.update k v al) \<Longrightarrow> (k', v') = (k, v) \<or> (k', v') \<in> set al"
  by (induction al) (auto split: if_splits)

lemma getBonds_loop_entries:
  "getBonds_loop r A addresses result w = Some (result', w') \<Longrightarrow> (k, el) \<in> set result' \<Longrightarrow>
     (k, el) \<in> set result \<or> (\<exists>w1 w2. attemptLoad r A k w1 = Some (el, w2))"
proof (induction addresses arbitrary: result w)
  case Nil
  then show ?case by simp
next
  case (Cons a addresses)
  from Cons.prems(1) obtain el1 w1
    where load: "attemptLoad r A a w = Some (el1, w1)"
      and rest: "getBonds_loop r A addresses (AList.update a el1 result) w1 = Some (result', w')"
    by (auto split: option.splits)
  from Cons.IH [OF rest Cons.prems(2)] show ?case
  proof
    assume "(k, el) \<in> set (AList.update a el1 result)"
    then have "(k, el) = (a, el1) \<or> (k, el) \<in> set result" by (rule set_update_cases)
    with load show ?thesis by auto
  next
    assume "\<exists>w1 w2. attemptLoad r A k w1 = Some (el, w2)"
    then show ?thesis by simp
  qed
qed

text \<open>
  C9. The name of a position is its symbol part, a space, and its tag. The symbol
  part is \<open>symbol0-symbol1 LP\<close> when \<open>symbol1\<close> is not empty and \<open>symbol0\<close>
  otherwise. The tag is \<open>(4,4)\<close> for a vesting term of \<open>345600\<close> and \<open>(1,1)\<close> for
  any other, \<open>86400\<close> for one. Every entry of the registry that \<^verbatim>\<open>getBonds\<close>
  returns carries the name derived in this way from symbols and terms that the
  chain reported for it.
\<close>

theorem bond_label:
  "bond_name s n = bond_symbol s @ '' '' @ bond_tag n \<and>
   (symbol1 s \<noteq> [] \<longrightarrow> bond_symbol s = symbol0 s @ ''-'' @ symbol1 s @ '' LP'') \<and>
   (symbol1 s = [] \<longrightarrow> bond_symbol s = symbol0 s) \<and>
   bond_tag 345600 = ''(4,4)'' \<and>
   (n \<noteq> 345600 \<longrightarrow> bond_tag n = ''(1,1)'') \<and>
   bond_tag 86400 = ''(1,1)'' \<and>
   (getBonds r maxBonds A w = Some (Inr registry, w') \<and> (k, el) \<in> set registry \<longrightarrow>
      (\<exists>sy t wa wb wc wd.
         helper_symbol r k wa = (Inr sy, wb) \<and>
         bond_terms r (contract_address (bond el)) wc = (Inr t, wd) \<and>
         name el = bond_name sy (vestingTerm t)))"
proof (intro conjI impI)
  assume a: "getBonds r maxBonds A w = Some (Inr registry, w') \<and> (k, el) \<in> set registry"
  then obtain addresses w1
    where loop: "getBonds_loop r A (addresses @ A) [] w1 = Some (registry, w')"
    by (auto simp: getBonds_def split: prod.splits sum.splits option.splits)
  from a have "(k, el) \<in> set registry" by simp
  from getBonds_loop_entries [OF loop this]
  obtain v1 v2 where "attemptLoad r A k v1 = Some (el, v2)" by auto
  from attemptLoad_name [OF this]
  show "\<exists>sy t wa wb wc wd.
         helper_symbol r k wa = (Inr sy, wb) \<and>
         bond_terms r (contract_address (bond el)) wc = (Inr t, wd) \<and>
         name el = bond_name sy (vestingTerm t)"
    by simp
qed (simp_all add: bond_name_def bond_symbol_def bond_tag_def)

lemma replay_load:
  "attemptLoad replay A a (Loaded b # Connected # Symbols s0 s1 # Terms 345600 # w)
     = Some (\<lparr>name = bond_name \<lparr>symbol0 = s0, symbol1 = s1\<rparr> 345600, bond = \<lparr>contract_address = b\<rparr>,
              redeemHelper = (b \<notin> set A)\<rparr>, w)"
  "attemptLoad replay A a (Loaded b # Connected # Symbols s0 s1 # Terms 86400 # w)
     = Some (\<lparr>name = bond_name \<lparr>symbol0 = s0, symbol1 = s1\<rparr> 86400, bond = \<lparr>contract_address = b\<rparr>,
              redeemHelper = (b \<notin> set A)\<rparr>, w)"
  "attemptLoad replay A a (Rejects # w) = attemptLoad replay A a w"
  by (subst attemptLoad.simps, simp add: replay_def next_reply_def toNumber_def)+

lemma replay_addresses:
  "redeemHelper_getBonds replay n (Addresses as # w) = (Inr (take n as), w)"
  by (simp add: replay_def next_reply_def)

lemma replay_getBonds:
  "getBonds replay 20 [''y''] discovery =
     Some (Inr [(''x'', \<lparr>name = ''EXOD-DAI LP (4,4)'', bond = \<lparr>contract_address = ''x''\<rparr>,
                          redeemHelper = True\<rparr>),
                (''y'', \<lparr>name = ''MAI (1,1)'', bond = \<lparr>contract_address = ''y''\<rparr>,
                          redeemHelper = False\<rparr>)], [])"
  by (simp add: getBonds_def discovery_def replay_load replay_addresses
      bond_name_def bond_symbol_def bond_tag_def)


text \<open>
  Discovery of a bond backed by two assets with a vesting term of \<open>345600\<close> and,
  after one failed attempt, of a supplemental bond backed by one asset with a
  vesting term of \<open>86400\<close>.
\<close>

theorem bond_label_witness:
  "symbol1 \<lparr>symbol0 = ''EXOD'', symbol1 = ''DAI''\<rparr> \<noteq> [] \<and>
   bond_name \<lparr>symbol0 = ''EXOD'', symbol1 = ''DAI''\<rparr> 345600 = ''EXOD-DAI LP (4,4)'' \<and>
   symbol1 \<lparr>symbol0 = ''MAI'', symbol1 = []\<rparr> = [] \<and> (86400 :: int) \<noteq> 345600 \<and>
   bond_name \<lparr>symbol0 = ''MAI'', symbol1 = []\<rparr> 86400 = ''MAI (1,1)'' \<and>
   getBonds replay 20 [''y''] discovery =
     Some (Inr [(''x'', \<lparr>name = ''EXOD-DAI LP (4,4)'', bond = \<lparr>contract_address = ''x''\<rparr>,
                          redeemHelper = True\<rparr>),
                (''y'', \<lparr>name = ''MAI (1,1)'', bond = \<lparr>contract_address = ''y''\<rparr>,
                          redeemHelper = False\<rparr>)], []) \<and>
   (\<exists>sy t wa wb wc wd.
      helper_symbol replay ''y'' wa = (Inr sy, wb) \<and>
      bond_terms replay ''y'' wc = (Inr t, wd) \<and>
      ''MAI (1,1)'' = bond_name sy (vestingTerm t))"
proof -
  have lp: "bond_name \<lparr>symbol0 = ''EXOD'', symbol1 = ''DAI''\<rparr> 345600 = ''EXOD-DAI LP (4,4)''"
  proof -
    note l = bond_label [where s = "\<lparr>symbol0 = ''EXOD'', symbol1 = ''DAI''\<rparr>" and n = 345600]
    from l [THEN conjunct1] l [THEN conjunct2, THEN conjunct1]
      l [THEN conjunct2, THEN conjunct2, THEN conjunct2, THEN conjunct1]
    show ?thesis by simp
  qed
  have single: "bond_name \<lparr>symbol0 = ''MAI'', symbol1 = []\<rparr> 86400 = ''MAI (1,1)''"
  proof -
    note l = bond_label [where s = "\<lparr>symbol0 = ''MAI'', symbol1 = []\<rparr>" and n = 86400]
    from l [THEN conjunct1] l [THEN conjunct2, THEN conjunct2, THEN conjunct1]
      l [THEN conjunct2, THEN conjunct2, THEN conjunct2, THEN conjunct2, THEN conjunct1]
    show ?thesis by simp
  qed
  have resolved: "\<exists>sy t wa wb wc wd.
      helper_symbol replay ''y'' wa = (Inr sy, wb) \<and>
      bond_terms replay ''y'' wc = (Inr t, wd) \<and>
      ''MAI (1,1)'' = bond_name sy (vestingTerm t)"
    using bond_label [where r = replay and maxBonds = 20 and A = "[''y'']" and w = discovery
        and w' = "[]" and k = "''y''"
        and el = "\<lparr>name = ''MAI (1,1)'', bond = \<lparr>contract_address = ''y''\<rparr>, redeemHelper = False\<rparr>",
        THEN conjunct2, THEN conjunct2, THEN conjunct2, THEN conjunct2, THEN conjunct2,
        THEN conjunct2, THEN mp]
      replay_getBonds by simp
  from lp single resolved replay_getBonds show ?thesis by simp
qed

end
